theory Spec2Isabelle
  imports Main "HOL-Library.Word" "HOL-Library.Char_ord" "HOL-Library.List_Lexorder"
begin

unbundle bit_operations_syntax

section \<open>The rc query client (rclient/main.cpp)\<close>

subsection \<open>Locations and the database interface\<close>

text \<open>
  A \<open>Location\<close> is the triple the client reads as \<open>loc.file\<close>, \<open>loc.line\<close> and
  \<open>loc.column\<close>; all three are C \<open>unsigned\<close> values. A location whose \<open>file\<close> is 0 is
  the invalid one: every \<open>if (loc.file)\<close> of the client tests exactly that.
\<close>

record Location =
  "file" :: "32 word"
  line :: "32 word"
  column :: "32 word"

text \<open>The second argument of \<open>Database::locationToString\<close>: \<open>Database::None\<close> or
  \<open>Database::RelativeToRoot\<close>.\<close>

datatype LocationFlag = NoFlag | RelativeToRoot

text \<open>
  \<open>Database.h\<close> is not among the sources, so the member functions of \<open>Database\<close> that
  \<open>main.cpp\<close> calls are parameters of the model: one field per member function, a
  container result given as the sequence in which \<open>foreach\<close> visits it.
  \<open>read_files\<close> and \<open>read_sourceDir\<close> stand for \<open>db->read<QSet<Path> >("files")\<close> and
  \<open>db->read<Path>("sourceDir")\<close>, \<open>path\<close> for \<open>db->path(loc)\<close>.
\<close>

record Database =
  createLocation :: "string \<Rightarrow> Location"
  followLocation :: "Location \<Rightarrow> Location"
  findSymbol :: "string \<Rightarrow> Location list"
  findReferences :: "Location \<Rightarrow> Location list"
  allReferences :: "Location \<Rightarrow> Location list"
  findSuper :: "Location \<Rightarrow> Location"
  findSubs :: "Location \<Rightarrow> Location list"
  listSymbols :: "string \<Rightarrow> string list"
  read_files :: "string list"
  read_sourceDir :: "string"
  locationToString :: "Location \<Rightarrow> LocationFlag \<Rightarrow> string"
  path :: "Location \<Rightarrow> string"

text \<open>
  The C library's \<open>fopen\<close> and RTags' \<open>readLine(f, buf, max)\<close> (declared in \<open>RTags.h\<close>,
  not among the sources) are parameters as well. \<open>fopen\<close> gives \<open>None\<close> for the null
  pointer; \<open>readLine f max\<close> gives the C string it leaves in \<open>buf\<close> and the advanced
  stream. The call \<open>readLine(f, 0, -1)\<close> has no buffer, so only the stream counts there.
\<close>

record 'f Files =
  fopen :: "string \<Rightarrow> 'f option"
  readLine :: "'f \<Rightarrow> int \<Rightarrow> string \<times> 'f"

subsection \<open>The process's observable effects\<close>

text \<open>
  What the process writes to its two streams, and each call of \<open>Database::create\<close> and
  of a query member function of a database, in call order. The strings hold no NUL
  byte, so a \<open>%s\<close> writes them whole.
\<close>

datatype dbcall =
    Call_create string
  | Call_createLocation string
  | Call_followLocation Location
  | Call_findSymbol string
  | Call_findReferences Location
  | Call_allReferences Location
  | Call_findSuper Location
  | Call_findSubs Location
  | Call_listSymbols string
  | Call_read string

record World =
  stdout :: string
  stderr :: string
  calls :: "dbcall list"

definition printf :: "string \<Rightarrow> World \<Rightarrow> World" where
  "printf s w = w\<lparr>stdout := stdout w @ s\<rparr>"

definition fprintf_stderr :: "string \<Rightarrow> World \<Rightarrow> World" where
  "fprintf_stderr s w = w\<lparr>stderr := stderr w @ s\<rparr>"

definition called :: "dbcall \<Rightarrow> World \<Rightarrow> World" where
  "called c w = w\<lparr>calls := calls w @ [c]\<rparr>"

subsection \<open>class Output\<close>

text \<open>The \<open>enum Flag\<close> of \<open>Output\<close>; \<open>mFlags\<close> is an \<open>unsigned\<close>.\<close>

definition PathsRelativeToRoot :: "32 word" where "PathsRelativeToRoot = 0x01"
definition NoContext :: "32 word" where "NoContext = 0x02"
definition SeparateLocationsBySpace :: "32 word" where "SeparateLocationsBySpace = 0x08"
definition PrecedingSpacePending :: "32 word" where "PrecedingSpacePending = 0x10"
definition SortOutput :: "32 word" where "SortOutput = 0x20"

text \<open>
  \<open>Output::printLocationImpl\<close>. \<open>Q_ASSERT\<close> expands to nothing in a release build of Qt
  (\<open>QT_NO_DEBUG\<close>); the model follows the release build, where control always reaches
  the statement after it. The bookkeeping of \<open>mUsedDBs\<close> is left out: \<open>usedDatabases()\<close>
  is never called, so the table is written and never read.
  The loop \<open>for (unsigned i=0; i<loc.line - 1; ++i) readLine(f, 0, -1)\<close> runs
  \<open>unat (line loc - 1)\<close> times, the subtraction wrapping at 32 bits.
\<close>

definition printLocationImpl ::
  "'f Files \<Rightarrow> Location \<Rightarrow> Database \<Rightarrow> 32 word \<Rightarrow> string" where
  "printLocationImpl fs loc db flags =
    (let out = locationToString db loc
                 (if flags AND PathsRelativeToRoot \<noteq> 0 then RelativeToRoot else NoFlag);
         out = (if flags AND PrecedingSpacePending \<noteq> 0 then CHR '' '' # out else out)
     in if \<not> (flags AND NoContext \<noteq> 0) then
          (case fopen fs (path db loc) of
             Some f \<Rightarrow>
               (let f = ((\<lambda>f. snd (readLine fs f (- 1))) ^^ unat (line loc - 1)) f;
                    buf = fst (readLine fs f 1024)
                in out @ [CHR 0x09] @ buf)
           | None \<Rightarrow> out)
        else out)"

text \<open>\<open>Output::printLocation\<close>.\<close>

definition printLocation ::
  "'f Files \<Rightarrow> 32 word \<Rightarrow> Location \<Rightarrow> Database \<Rightarrow> World \<Rightarrow> World" where
  "printLocation fs mFlags loc db w =
     printf (printLocationImpl fs loc db (mFlags AND NOT SeparateLocationsBySpace)
             @ ''\<newline>'') w"

text \<open>The printing loop of \<open>Output::printLocations\<close>, from index \<open>i\<close> on.\<close>

fun printEach :: "32 word \<Rightarrow> nat \<Rightarrow> string list \<Rightarrow> World \<Rightarrow> World" where
  "printEach flags i [] w = w"
| "printEach flags i (x # xs) w =
     printEach flags (Suc i) xs
       (if flags AND SeparateLocationsBySpace \<noteq> 0 then
          (if i \<noteq> 0 then printf ('' '' @ x) w else printf x w)
        else printf (x @ ''\<newline>'') w)"

text \<open>\<open>Output::printLocations\<close>; \<open>qSort\<close> orders \<open>QByteArray\<close>s bytewise, which is the
  lexicographic order on \<open>char list\<close>.\<close>

definition printLocations ::
  "'f Files \<Rightarrow> 32 word \<Rightarrow> Location list \<Rightarrow> Database \<Rightarrow> World \<Rightarrow> World" where
  "printLocations fs mFlags t db w =
    (let flags = mFlags;
         out = map (\<lambda>l. printLocationImpl fs l db flags) t;
         out = (if flags AND SortOutput \<noteq> 0 then sort out else out);
         w = printEach flags 0 out w
     in if flags AND SeparateLocationsBySpace \<noteq> 0 then printf ''\<newline>'' w else w)"

text \<open>\<open>Output::print\<close>. The condition of its \<open>if\<close> is the enumerator \<open>SortOutput\<close>
  itself, not \<open>mFlags & SortOutput\<close>.\<close>

definition print :: "32 word \<Rightarrow> string list \<Rightarrow> World \<Rightarrow> World" where
  "print mFlags out w =
    (let out = (if SortOutput \<noteq> 0 then sort out else out)
     in fold (\<lambda>l. printf (l @ ''\<newline>'')) out w)"

subsection \<open>The switch over the query mode\<close>

datatype Mode =
    Mode_None
  | FollowSymbol
  | References
  | FindSymbols
  | ListSymbols
  | Files
  | AllReferences
  | FindSuper
  | FindSubs

text \<open>
  A \<open>QSet<Location>\<close> is modelled by the sequence in which \<open>foreach\<close> visits it, which Qt
  leaves unspecified; the model visits in order of insertion. \<open>unite\<close> is
  \<open>QSet::operator+=\<close>: it inserts each element of the other container.
\<close>

definition qset_insert :: "'a \<Rightarrow> 'a list \<Rightarrow> 'a list" where
  "qset_insert x s = (if x \<in> set s then s else s @ [x])"

definition unite :: "'a list \<Rightarrow> 'a list \<Rightarrow> 'a list" where
  "unite s other = fold qset_insert other s"

text \<open>
  The two loops of the name fallback. \<open>appendValid\<close> is the body shared by the
  follow-symbol and find-super cases (\<open>Location ll = q(l); if (ll.file) out.append(ll)\<close>),
  \<open>uniteResults\<close> the one shared by the references and find-subs cases
  (\<open>out += q(l)\<close>); \<open>c\<close> names the member function for the record of calls.
\<close>

fun appendValid ::
  "(Location \<Rightarrow> Location) \<Rightarrow> (Location \<Rightarrow> dbcall) \<Rightarrow> Location list
     \<Rightarrow> Location list \<times> World \<Rightarrow> Location list \<times> World" where
  "appendValid q c [] (out, w) = (out, w)"
| "appendValid q c (l # ls) (out, w) =
     (let ll = q l; w = called (c l) w
      in appendValid q c ls (if file ll \<noteq> 0 then out @ [ll] else out, w))"

fun uniteResults ::
  "(Location \<Rightarrow> Location list) \<Rightarrow> (Location \<Rightarrow> dbcall) \<Rightarrow> Location list
     \<Rightarrow> Location list \<times> World \<Rightarrow> Location list \<times> World" where
  "uniteResults q c [] (out, w) = (out, w)"
| "uniteResults q c (l # ls) (out, w) =
     uniteResults q c ls (unite out (q l), called (c l) w)"

text \<open>\<open>QByteArray::contains\<close>: the argument occurs somewhere in the array.\<close>

fun contains :: "string \<Rightarrow> string \<Rightarrow> bool" where
  "contains [] a = (a = [])"
| "contains (c # cs) a = (take (length a) (c # cs) = a \<or> contains cs a)"

text \<open>The loop of the files case.\<close>

fun printPaths :: "bool \<Rightarrow> string \<Rightarrow> string \<Rightarrow> string list \<Rightarrow> World \<Rightarrow> World" where
  "printPaths isEmpty arg root [] w = w"
| "printPaths isEmpty arg root (p # paths) w =
     printPaths isEmpty arg root paths
       (if isEmpty \<or> contains p arg then printf (root @ p @ ''\<newline>'') w else w)"

text \<open>
  The body of \<open>switch (mode)\<close> for one opened database, every case but \<open>None\<close> (which
  returns from \<open>main\<close> and is part of the loop over the databases below).
\<close>

fun runQuery ::
  "'f Files \<Rightarrow> Mode \<Rightarrow> string \<Rightarrow> 32 word \<Rightarrow> Database \<Rightarrow> World \<Rightarrow> World" where
  "runQuery fs Mode_None arg flags db w = w"
| "runQuery fs AllReferences arg flags db w =
    (let loc = createLocation db arg; w = called (Call_createLocation arg) w
     in if \<not> (file loc \<noteq> 0) then fprintf_stderr (''Invalid arg '' @ arg) w
        else printLocations fs flags (allReferences db loc) db
               (called (Call_allReferences loc) w))"
| "runQuery fs FollowSymbol arg flags db w =
    (let loc = createLocation db arg; w = called (Call_createLocation arg) w
     in if file loc \<noteq> 0 then
          (let loc' = followLocation db loc; w = called (Call_followLocation loc) w
           in if file loc' \<noteq> 0 then printLocation fs flags loc' db w else w)
        else
          (let ls = findSymbol db arg; w = called (Call_findSymbol arg) w;
               (out, w) = appendValid (followLocation db) Call_followLocation ls ([], w)
           in printLocations fs flags out db w))"
| "runQuery fs References arg flags db w =
    (let loc = createLocation db arg; w = called (Call_createLocation arg) w
     in if file loc \<noteq> 0 then
          printLocations fs flags (findReferences db loc) db
            (called (Call_findReferences loc) w)
        else
          (let ls = findSymbol db arg; w = called (Call_findSymbol arg) w;
               (out, w) = uniteResults (findReferences db) Call_findReferences ls ([], w)
           in printLocations fs flags out db w))"
| "runQuery fs FindSymbols arg flags db w =
     printLocations fs flags (findSymbol db arg) db (called (Call_findSymbol arg) w)"
| "runQuery fs ListSymbols arg flags db w =
    (let symbolNames = listSymbols db arg; w = called (Call_listSymbols arg) w
     in if symbolNames \<noteq> [] then print flags symbolNames w else w)"
| "runQuery fs Files arg flags db w =
    (let paths = read_files db; w = called (Call_read ''files'') w;
         isEmpty = (arg = []);
         (root, w) = (if \<not> (flags AND PathsRelativeToRoot \<noteq> 0)
                      then (read_sourceDir db, called (Call_read ''sourceDir'') w)
                      else (''./'', w))
     in printPaths isEmpty arg root paths w)"
| "runQuery fs FindSuper arg flags db w =
    (let loc = createLocation db arg; w = called (Call_createLocation arg) w
     in if file loc \<noteq> 0 then
          (let loc' = findSuper db loc; w = called (Call_findSuper loc) w
           in if file loc' \<noteq> 0 then printLocation fs flags loc' db w else w)
        else
          (let ls = findSymbol db arg; w = called (Call_findSymbol arg) w;
               (out, w) = appendValid (findSuper db) Call_findSuper ls ([], w)
           in printLocations fs flags out db w))"
| "runQuery fs FindSubs arg flags db w =
    (let loc = createLocation db arg; w = called (Call_createLocation arg) w;
         (out, w) =
           (if file loc \<noteq> 0 then (unite [] (findSubs db loc), called (Call_findSubs loc) w)
            else (let ls = findSymbol db arg; w = called (Call_findSymbol arg) w
                  in uniteResults (findSubs db) Call_findSubs ls ([], w)))
     in if out \<noteq> [] then printLocations fs flags out db w else w)"

subsection \<open>main\<close>

text \<open>The text \<open>usage\<close> writes; \<open>argv0\<close> is \<open>argv[0]\<close>.\<close>

definition usage :: "string \<Rightarrow> string" where
  "usage argv0 =
     argv0 @ '' [options]...\<newline>'' @
     ''  --help|-h                     Display this help\<newline>'' @
     ''  --db-file|-d [arg]            Find database using this path\<newline>'' @
     ''  --print-db-path|-p            Print out the used database path(s)\<newline>'' @
     ''  --detect-db|-D                Find .rtags.db based on path\<newline>'' @
     ''                                (default when no -d options are specified)\<newline>'' @
     ''  --db-type|-t [arg]            Type of db (leveldb or filedb)\<newline>'' @
     ''  --paths-relative-to-root|-n   Print out files matching arg\<newline>'' @
     ''  --no-context|-N               Don'' @ [CHR 0x27] @
       ''t print context from files when printing locations\<newline>'' @
     ''  --separate-paths-by-space|-S  Separate multiple locations by space instead of newline\<newline>'' @
     ''  --sort-output|-o              Sort output alphabetically\<newline>'' @
     ''\<newline>'' @
     ''  Modes\<newline>'' @
     ''  --follow-symbol|-f [loc]      Follow this symbol (e.g. /tmp/main.cpp:32:1)\<newline>'' @
     ''  --find-references|-r [arg]    Print references of symbol at arg\<newline>'' @
     ''  --list-symbols|-l [arg]       Print out symbols names matching arg\<newline>'' @
     ''  --files|-P [arg]              Print out files matching arg\<newline>'' @
     ''  --all-references|-a [arg]     Print all references/declarations/definitions that matches arg\<newline>'' @
     ''  --find-symbols|-s [arg]       Print out symbols matching arg\<newline>'' @
     ''  --find-super|-u [loc]         Print out superclass or reimplemented function of arg\<newline>'' @
     ''  --find-subs|-b [loc]          Print out baseclasses or reimplementations of arg\<newline>''"

text \<open>
  \<open>getopt_long\<close> belongs to the C library. The command line enters the model as the
  sequence of what its successive calls give back before the final \<open>-1\<close>: the value
  returned (\<open>idx\<close>), \<open>optarg\<close> (\<open>None\<close> for the null pointer) and the word
  \<open>argv[optind]\<close> as it stands after the call (\<open>None\<close> when \<open>optind\<close> is not below
  \<open>argc\<close>, where \<open>argv[argc]\<close> is the null pointer). The command line
  \<open>rc -o -f /tmp/a.cpp:3:1\<close>, for example, is
  \<open>[(CHR ''o'', None, Some ''-f''), (CHR ''f'', Some ''/tmp/a.cpp:3:1'', None)]\<close>.
\<close>

record getopt_result =
  idx :: char
  optarg :: "string option"
  argv_optind :: "string option"

text \<open>
  What \<open>main\<close> takes from its surroundings: \<open>findRtagsDb\<close> (of \<open>RTags.h\<close>; \<open>None\<close> is
  the call without argument), \<open>Database::create\<close> followed by \<open>isOpened\<close> (\<open>None\<close> when
  the database is not opened; the first argument is the value of the environment
  variable \<open>RTAGS_DB_TYPE\<close>, which option \<open>t\<close> sets), the file system, and the value of
  \<open>RTAGS_DB_TYPE\<close> at the start.
\<close>

record 'f Env =
  findRtagsDb :: "string option \<Rightarrow> string"
  create :: "string option \<Rightarrow> string \<Rightarrow> Database option"
  filesystem :: "'f Files"
  RTAGS_DB_TYPE :: "string option"

text \<open>The local variables of \<open>main\<close> that the option loop writes.\<close>

record Locals =
  mode :: Mode
  flags :: "32 word"
  arg :: string
  dbPaths :: "string list"
  dbType :: "string option"

text \<open>\<open>arg = optarg\<close>: a \<open>QByteArray\<close> made from the null pointer is empty.\<close>

definition fromOptarg :: "string option \<Rightarrow> string" where
  "fromOptarg oa = (case oa of None \<Rightarrow> [] | Some a \<Rightarrow> a)"

text \<open>
  The macro \<open>SET_MODE(m)\<close>: \<open>Inl\<close> is its \<open>return 1\<close>, after the message; \<open>Inr\<close> the
  locals with \<open>mode = m\<close>.
\<close>

definition SET_MODE :: "Mode \<Rightarrow> Locals \<Rightarrow> World \<Rightarrow> (int \<times> World) + Locals" where
  "SET_MODE m v w =
     (if mode v \<noteq> Mode_None then Inl (1, fprintf_stderr ''Mode is already set\<newline>'' w)
      else Inr (v\<lparr>mode := m\<rparr>))"

text \<open>
  The argument of the options \<open>P\<close> and \<open>l\<close>, whose argument is optional: when \<open>optarg\<close>
  is null or empty and the next word of the command line does not start with \<open>-\<close>, that
  word (\<open>argv[optind++]\<close>) is the argument.
\<close>

definition optionalArg :: "getopt_result \<Rightarrow> string" where
  "optionalArg g =
     (if (optarg g = None \<or> optarg g = Some []) \<and> argv_optind g \<noteq> None
         \<and> take 1 (the (argv_optind g)) \<noteq> ''-''
      then the (argv_optind g)
      else fromOptarg (optarg g))"

text \<open>
  The \<open>while\<close> loop over the options. \<open>Inl (r, w)\<close> is a \<open>return r\<close> from inside the
  loop; \<open>Inr\<close> gives the locals once \<open>getopt_long\<close> has returned \<open>-1\<close>. The \<open>%s\<close> of
  the invalid-option message is given the null pointer when \<open>optind\<close> is \<open>argc\<close>; the
  C library prints \<open>(null)\<close> for it.
\<close>

fun options ::
  "'f Env \<Rightarrow> string \<Rightarrow> getopt_result list \<Rightarrow> Locals \<Rightarrow> World \<Rightarrow> (int \<times> World) + (Locals \<times> World)"
  where
  "options env argv0 [] v w = Inr (v, w)"
| "options env argv0 (g # gs) v w =
    (if idx g = CHR ''?'' then
       Inl (1, fprintf_stderr
                 (''rc: invalid option '' @ [CHR 0x22] @
                  (case argv_optind g of None \<Rightarrow> ''(null)'' | Some a \<Rightarrow> a) @
                  [CHR 0x22] @ ''\<newline>'')
                 (fprintf_stderr (usage argv0) w))
     else if idx g = CHR ''N'' then
       options env argv0 gs (v\<lparr>flags := flags v OR NoContext\<rparr>) w
     else if idx g = CHR ''S'' then
       options env argv0 gs (v\<lparr>flags := flags v OR SeparateLocationsBySpace\<rparr>) w
     else if idx g = CHR ''o'' then
       options env argv0 gs (v\<lparr>flags := flags v OR SortOutput\<rparr>) w
     else if idx g = CHR ''a'' then
       (case SET_MODE AllReferences v w of Inl r \<Rightarrow> Inl r
        | Inr v \<Rightarrow> options env argv0 gs (v\<lparr>arg := fromOptarg (optarg g)\<rparr>) w)
     else if idx g = CHR ''n'' then
       options env argv0 gs (v\<lparr>flags := flags v OR PathsRelativeToRoot\<rparr>) w
     else if idx g = CHR ''t'' then
       options env argv0 gs (v\<lparr>dbType := optarg g\<rparr>) w
     else if idx g = CHR ''h'' then
       Inl (0, printf (usage argv0) w)
     else if idx g = CHR ''f'' then
       (case SET_MODE FollowSymbol v w of Inl r \<Rightarrow> Inl r
        | Inr v \<Rightarrow> options env argv0 gs (v\<lparr>arg := fromOptarg (optarg g)\<rparr>) w)
     else if idx g = CHR ''P'' then
       (case SET_MODE Files v w of Inl r \<Rightarrow> Inl r
        | Inr v \<Rightarrow> options env argv0 gs (v\<lparr>arg := optionalArg g\<rparr>) w)
     else if idx g = CHR ''r'' then
       (case SET_MODE References v w of Inl r \<Rightarrow> Inl r
        | Inr v \<Rightarrow> options env argv0 gs (v\<lparr>arg := fromOptarg (optarg g)\<rparr>) w)
     else if idx g = CHR ''D'' then
       (let db = findRtagsDb env None
        in options env argv0 gs (if db \<noteq> [] then v\<lparr>dbPaths := dbPaths v @ [db]\<rparr> else v) w)
     else if idx g = CHR ''d'' then
       (case optarg g of
          Some a \<Rightarrow>
            (if a \<noteq> [] then
               (let db = findRtagsDb env (Some a)
                in options env argv0 gs
                     (if db \<noteq> [] then v\<lparr>dbPaths := dbPaths v @ [db]\<rparr> else v) w)
             else options env argv0 gs v w)
        | None \<Rightarrow> options env argv0 gs v w)
     else if idx g = CHR ''l'' then
       (case SET_MODE ListSymbols v w of Inl r \<Rightarrow> Inl r
        | Inr v \<Rightarrow> options env argv0 gs (v\<lparr>arg := optionalArg g\<rparr>) w)
     else if idx g = CHR ''s'' then
       (case SET_MODE FindSymbols v w of Inl r \<Rightarrow> Inl r
        | Inr v \<Rightarrow> options env argv0 gs (v\<lparr>arg := fromOptarg (optarg g)\<rparr>) w)
     else if idx g = CHR ''u'' then
       (case SET_MODE FindSuper v w of Inl r \<Rightarrow> Inl r
        | Inr v \<Rightarrow> options env argv0 gs (v\<lparr>arg := fromOptarg (optarg g)\<rparr>) w)
     else if idx g = CHR ''b'' then
       (case SET_MODE FindSubs v w of Inl r \<Rightarrow> Inl r
        | Inr v \<Rightarrow> options env argv0 gs (v\<lparr>arg := fromOptarg (optarg g)\<rparr>) w)
     else options env argv0 gs v w)"

text \<open>
  The \<open>foreach\<close> over \<open>dbPaths\<close>, with the \<open>return 0\<close> that follows it. \<open>done\<close> is never
  set, so the loop ends only with the list or with the \<open>return 1\<close> of \<open>case None\<close>.
\<close>

fun databases ::
  "'f Env \<Rightarrow> string \<Rightarrow> Locals \<Rightarrow> string list \<Rightarrow> World \<Rightarrow> int \<times> World" where
  "databases env argv0 v [] w = (0, w)"
| "databases env argv0 v (dbPath # rest) w =
    (if dbPath = [] then databases env argv0 v rest w
     else
       (let w = called (Call_create dbPath) w
        in case create env (dbType v) dbPath of
             None \<Rightarrow> databases env argv0 v rest w
           | Some db \<Rightarrow>
               (if mode v = Mode_None then
                  (1, fprintf_stderr ''No mode selected\<newline>''
                        (fprintf_stderr (usage argv0) w))
                else
                  databases env argv0 v rest
                    (runQuery (filesystem env) (mode v) (arg v) (flags v) db w))))"

text \<open>
  \<open>main\<close>, from the option loop on, as the exit status and what was written. The block
  that appends the command line to \<open>/tmp/rc.log\<close> writes to neither stream and is left
  out.
\<close>

definition main :: "'f Env \<Rightarrow> string \<Rightarrow> getopt_result list \<Rightarrow> int \<times> World" where
  "main env argv0 gs =
    (case options env argv0 gs
            \<lparr>mode = Mode_None, flags = 0, arg = [], dbPaths = [], dbType = RTAGS_DB_TYPE env\<rparr>
            \<lparr>stdout = [], stderr = [], calls = []\<rparr> of
       Inl r \<Rightarrow> r
     | Inr (v, w) \<Rightarrow>
         (let v = (if dbPaths v = [] then
                     (let db = findRtagsDb env None;
                          db = (if db = [] \<and> arg v \<noteq> [] then findRtagsDb env (Some (arg v))
                                else db)
                      in if db \<noteq> [] then v\<lparr>dbPaths := dbPaths v @ [db]\<rparr> else v)
                   else v)
          in if dbPaths v = [] then (1, fprintf_stderr ''No databases specified\<newline>'' w)
             else databases env argv0 v (dbPaths v) w))"

section \<open>Project::visitFile (src/Project.h)\<close>

text \<open>
  \<open>struct JobData\<close>. \<open>Source\<close>, \<open>IndexerJob::IndexType\<close> and \<open>IndexerJob\<close> are declared in
  headers that are not among the sources, so they are type parameters; \<open>job\<close> is a
  \<open>std::shared_ptr\<close>, \<open>None\<close> when it is null.
\<close>

record ('source, 'type, 'job) JobData =
  pending :: 'source
  pendingType :: 'type
  crashCount :: int
  job :: "'job option"

text \<open>
  The two members of \<open>Project\<close> that \<open>visitFile\<close> touches: \<open>Set<uint32_t> mVisitedFiles\<close>
  and \<open>Hash<uint32_t, JobData> mJobs\<close>.
\<close>

record ('source, 'type, 'job) Project =
  mVisitedFiles :: "32 word set"
  mJobs :: "32 word \<rightharpoonup> ('source, 'type, 'job) JobData"

datatype failure = AssertionFailed

text \<open>
  \<open>Project::visitFile\<close>. \<open>Set::insert\<close> returns whether the element was new. The keys of
  \<open>mJobs\<close> are \<open>uint32_t\<close>, so the \<open>uint64_t id\<close> is converted (\<open>ucast\<close>) where it is
  used as a key. \<open>visited_insert\<close> stands for \<open>job->visited.insert\<close>, a member of the
  absent \<open>IndexerJob\<close>; it is handed \<open>id\<close> (written \<open>id'\<close> below), as in the source. A failing \<open>assert\<close> ends the
  process: \<open>Inl AssertionFailed\<close>. (With \<open>NDEBUG\<close> the same calls end in the dereference
  of a null \<open>job\<close>.)
\<close>

definition visitFile ::
  "(64 word \<Rightarrow> 'job \<Rightarrow> 'job) \<Rightarrow> 32 word \<Rightarrow> 64 word \<Rightarrow> ('source, 'type, 'job) Project
     \<Rightarrow> failure + (bool \<times> ('source, 'type, 'job) Project)" where
  "visitFile visited_insert fileId id' p =
    (if fileId \<notin> mVisitedFiles p then
       (let p = p\<lparr>mVisitedFiles := insert fileId (mVisitedFiles p)\<rparr>
        in case mJobs p (ucast id') of
             None \<Rightarrow> Inl AssertionFailed
           | Some data \<Rightarrow>
               (case job data of
                  None \<Rightarrow> Inl AssertionFailed
                | Some j \<Rightarrow>
                    Inr (True,
                         p\<lparr>mJobs := (mJobs p)(ucast id' \<mapsto> data\<lparr>job := Some (visited_insert id' j)\<rparr>)\<rparr>)))
     else Inr (False, p))"

section \<open>The symbol store\<close>

text \<open>
  \<open>Project.h\<close> only declares \<open>mSymbols\<close>, \<open>sync\<close> and \<open>remove\<close>; the code that merges a
  job's result into the symbol map and that purges a file is not among the sources.
  Every definition of this section is modelled from sections 3, 4.2 and 4.6 of the spec.
\<close>

text \<open>
  Modelled from the spec: the kinds of a cursor that section 3 names (the type
  \<open>CursorKind\<close> of \<open>CursorInfo.h\<close>, which is not among the sources).
\<close>

datatype CursorKind =
    Declaration | Definition | Reference | MethodDeclaration | MethodDefinition
  | ClassDeclaration | ClassDefinition | EnumConstant | MacroDefinition
  | Destructor | Constructor

text \<open>
  Modelled from the spec: the attributes of a \<open>CursorInfo\<close> (of \<open>CursorInfo.h\<close>, not
  among the sources) as section 3 lists them; \<open>targets\<close> and \<open>references\<close> are sets of
  locations, \<open>start\<close> and \<open>end\<close> the 32-bit offsets of the encoding in section 4.3.
\<close>

record CursorInfo =
  kind :: CursorKind
  symbolName :: string
  usr :: string
  start :: "32 word"
  "end" :: "32 word"
  targets :: "Location set"
  references :: "Location set"
  enclosingClass :: "Location option"
  baseClasses :: "string set"

text \<open>
  Modelled from the spec: the \<open>SymbolMap\<close> (declared outside the sources) is the
  "mapping Location \<open>\<rightarrow>\<close> CursorInfo" of section 3.
\<close>

type_synonym SymbolMap = "Location \<rightharpoonup> CursorInfo"

text \<open>
  Modelled from the spec: what \<open>remove(FileId)\<close> does to a \<open>CursorInfo\<close> of another file.
  It "remove[s] inverse references from every other CursorInfo that pointed into it",
  and afterwards "no CursorInfo in the store references any Location with FileId = f"
  (section 8, purge correctness): the links into the file go, targets and references
  alike.
\<close>

definition purge :: "32 word \<Rightarrow> CursorInfo \<Rightarrow> CursorInfo" where
  "purge f ci =
     ci\<lparr>targets := {l \<in> targets ci. file l \<noteq> f},
        references := {l \<in> references ci. file l \<noteq> f}\<rparr>"

text \<open>
  Modelled from the spec: \<open>remove(FileId)\<close> (its code is not among the sources) "purge[s]
  all entries for that FileId" and purges every other entry of its links into the file.
\<close>

definition remove_fileId :: "32 word \<Rightarrow> SymbolMap \<Rightarrow> SymbolMap" where
  "remove_fileId f s = (\<lambda>l. if file l = f then None else map_option (purge f) (s l))"

text \<open>
  Modelled from the spec: the repair of the inverse links in \<open>insertBatch\<close> (its code is
  not among the sources): the "inverse links in other files' CursorInfos are repaired
  (the batch must include re-linking targets)". The links come from the batch \<open>b\<close>: the
  entry stored at \<open>l\<close> gets, at its end, the inverse of every link that a new entry \<open>a\<close>
  carries to \<open>l\<close>. If \<open>a\<close> targets \<open>l\<close>, then \<open>a\<close> becomes a reference of \<open>l\<close>; if \<open>a\<close> lists
  \<open>l\<close> as a reference, then \<open>a\<close> becomes a target of \<open>l\<close>.
\<close>

definition relink :: "SymbolMap \<Rightarrow> Location \<Rightarrow> CursorInfo \<Rightarrow> CursorInfo" where
  "relink b l ci =
     ci\<lparr>targets := targets ci \<union> {a \<in> dom b. l \<in> references (the (b a))},
        references := references ci \<union> {a \<in> dom b. l \<in> targets (the (b a))}\<rparr>"

text \<open>
  Modelled from the spec: \<open>insertBatch(FileId, batch)\<close> (its code is not among the
  sources) is the "atomic replacement of all entries for that FileId. Any prior
  Locations with that FileId are removed first; their inverse links in other files'
  CursorInfos are repaired". The batch is the \<open>Map<Location, CursorInfo>\<close> of a job's
  \<open>IndexData\<close> (section 6), given as an association list; its entries for the file
  replace the old ones, and every stored entry is relinked.
\<close>

definition insertBatch ::
  "32 word \<Rightarrow> (Location \<times> CursorInfo) list \<Rightarrow> SymbolMap \<Rightarrow> SymbolMap" where
  "insertBatch f batch s =
    (let b = map_of (filter (\<lambda>(l, ci). file l = f) batch);
         s = remove_fileId f s ++ b
     in (\<lambda>l. map_option (relink b l) (s l)))"

text \<open>
  Modelled from the spec: a sync pass (\<open>Project::sync\<close>, declared in \<open>Project.h\<close> and
  defined outside the sources) calls \<open>insertBatch\<close> "for each FileId in pendingData"
  (section 4.6, step 2).
\<close>

fun sync :: "(32 word \<times> (Location \<times> CursorInfo) list) list \<Rightarrow> SymbolMap \<Rightarrow> SymbolMap" where
  "sync [] s = s"
| "sync ((f, batch) # pendingData) s = sync pendingData (insertBatch f batch s)"

text \<open>
  Modelled from the spec: the invariant of sections 3, 4.2 and 8, over the stored
  locations: \<open>b\<close> is a target of \<open>a\<close> if and only if \<open>a\<close> is a reference of \<open>b\<close>.
\<close>

definition symmetric :: "SymbolMap \<Rightarrow> bool" where
  "symmetric s =
     (\<forall>a b ca cb. s a = Some ca \<and> s b = Some cb \<longrightarrow> (b \<in> targets ca) = (a \<in> references cb))"

text \<open>
  Modelled from the spec: the stores that the operations produce, starting from the
  empty store of a new project.
\<close>

inductive stored :: "SymbolMap \<Rightarrow> bool" where
  empty: "stored Map.empty"
| insertBatch: "stored s \<Longrightarrow> stored (insertBatch f batch s)"
| remove: "stored s \<Longrightarrow> stored (remove_fileId f s)"
| sync: "stored s \<Longrightarrow> stored (sync pendingData s)"

section \<open>The formats of the spec\<close>

text \<open>Modelled from the spec: the decimal numeral of a line or column in a response
  line (part of the absent \<open>Database::locationToString\<close>).\<close>

fun decimal :: "nat \<Rightarrow> string" where
  "decimal n =
     (if n < 10 then [''0123456789'' ! n]
      else decimal (n div 10) @ [''0123456789'' ! (n mod 10)])"

declare decimal.simps [simp del]

text \<open>
  Modelled from the spec: \<open>Database::locationToString\<close> is not among the sources. A
  response line is "\<open>path:line:column[\tcontext]\<close>" (section 6), and the display flag
  paths-relative-to-root selects how the path is written; \<open>pathOf\<close> is the path of the
  location's file under the flag.
\<close>

definition locationToString_spec ::
  "(Location \<Rightarrow> LocationFlag \<Rightarrow> string) \<Rightarrow> Location \<Rightarrow> LocationFlag \<Rightarrow> string" where
  "locationToString_spec pathOf loc flag =
     pathOf loc flag @ '':'' @ decimal (unat (line loc)) @ '':'' @ decimal (unat (column loc))"

text \<open>
  \<open>Database::createLocation\<close> is not among the sources. The definitions that follow
  model it from section 4.1 of the spec: "User-location parsing accepts
  \<open>path:line:column\<close> and \<open>path:line\<close> (column defaults to 1). The path is canonicalized
  [...] before interning. Failure: malformed strings yield the sentinel invalid location".
\<close>

text \<open>Modelled from the spec: a line or column of a user location (part of the absent
  \<open>createLocation\<close>) is a decimal numeral, a non-empty string of digits.\<close>

definition digits :: "string \<Rightarrow> bool" where
  "digits s = (s \<noteq> [] \<and> list_all (\<lambda>c. c \<in> set ''0123456789'') s)"

text \<open>Modelled from the spec: the strings that the absent \<open>createLocation\<close> accepts,
  \<open>path:line\<close> and \<open>path:line:column\<close>; every other string is malformed.\<close>

definition wellFormed :: "string \<Rightarrow> bool" where
  "wellFormed s =
     (\<exists>p l. digits l \<and> (s = p @ '':'' @ l \<or> (\<exists>c. digits c \<and> s = p @ '':'' @ l @ '':'' @ c)))"

text \<open>Modelled from the spec: the value of a numeral as a 32-bit line or column (part
  of the absent \<open>createLocation\<close>).\<close>

definition number :: "string \<Rightarrow> 32 word" where
  "number s = word_of_nat (foldl (\<lambda>n c. 10 * n + (of_char c - 48)) 0 s)"

text \<open>Modelled from the spec: the split of a string at its last colon (part of the
  absent \<open>createLocation\<close>); \<open>None\<close> when it has no colon.\<close>

fun splitLast :: "string \<Rightarrow> (string \<times> string) option" where
  "splitLast [] = None"
| "splitLast (c # cs) =
     (case splitLast cs of
        Some (pre, post) \<Rightarrow> Some (c # pre, post)
      | None \<Rightarrow> if c = CHR '':'' then Some ([], cs) else None)"

text \<open>Modelled from the spec: "a zero FileId is the sentinel invalid location"
  (section 3); the value the absent \<open>createLocation\<close> gives on failure.\<close>

definition invalidLocation :: Location where
  "invalidLocation = \<lparr>file = 0, line = 0, column = 0\<rparr>"

text \<open>
  Modelled from the spec: \<open>parseUserLocation\<close>, for the absent \<open>Database::createLocation\<close>.
  It splits at the last colon, and at the one before it when the part between is a
  numeral; \<open>intern\<close> canonicalizes and interns the path.
\<close>

definition parseUserLocation :: "(string \<Rightarrow> 32 word) \<Rightarrow> string \<Rightarrow> Location" where
  "parseUserLocation intern s =
    (case splitLast s of
       None \<Rightarrow> invalidLocation
     | Some (pre, post) \<Rightarrow>
         if \<not> digits post then invalidLocation
         else
           (case splitLast pre of
              None \<Rightarrow> \<lparr>file = intern pre, line = number post, column = 1\<rparr>
            | Some (pre', mid) \<Rightarrow>
                if digits mid
                then \<lparr>file = intern pre', line = number mid, column = number post\<rparr>
                else \<lparr>file = intern pre, line = number post, column = 1\<rparr>))"

section \<open>A small index\<close>

text \<open>
  The index of the spec's scenario A, with a second file for the definition:
  \<open>/t/a.cpp\<close> is \<open>int foo(); int main(){ return foo(); }\<close> and \<open>/t/b.cpp\<close> is
  \<open>int foo() { return 1; }\<close>. The declaration of \<open>foo\<close> is at \<open>/t/a.cpp:1:5\<close>, its call
  at \<open>/t/a.cpp:1:29\<close>, its definition at \<open>/t/b.cpp:1:5\<close>.
\<close>

definition decl :: Location where "decl = \<lparr>file = 1, line = 1, column = 5\<rparr>"
definition call :: Location where "call = \<lparr>file = 1, line = 1, column = 29\<rparr>"
definition defn :: Location where "defn = \<lparr>file = 2, line = 1, column = 5\<rparr>"

definition intern0 :: "string \<Rightarrow> 32 word" where
  "intern0 p = (if p = ''/t/a.cpp'' then 1 else if p = ''/t/b.cpp'' then 2 else 0)"

definition pathOf0 :: "Location \<Rightarrow> LocationFlag \<Rightarrow> string" where
  "pathOf0 l flag =
     (if flag = RelativeToRoot then [] else ''/t/'') @
     (if file l = 1 then ''a.cpp'' else if file l = 2 then ''b.cpp'' else [])"

definition db0 :: Database where
  "db0 = \<lparr>
     createLocation = parseUserLocation intern0,
     followLocation = (\<lambda>l. if l = call then decl else if l = decl then defn
                            else if l = defn then decl else invalidLocation),
     findSymbol = (\<lambda>n. if n = ''foo'' then [decl, defn] else []),
     findReferences = (\<lambda>l. if l = decl \<or> l = defn then [call] else []),
     allReferences = (\<lambda>l. if l = decl \<or> l = defn \<or> l = call then [decl, call, defn] else []),
     findSuper = (\<lambda>l. invalidLocation),
     findSubs = (\<lambda>l. []),
     listSymbols = (\<lambda>n. filter (\<lambda>name. take (length n) name = n) [''main()'', ''foo()'']),
     read_files = [''a.cpp'', ''b.cpp''],
     read_sourceDir = ''/t/'',
     locationToString = locationToString_spec pathOf0,
     path = (\<lambda>l. pathOf0 l NoFlag)\<rparr>"

text \<open>The two source files; an open file is the list of its lines still to be read.\<close>

definition files0 :: "string list Files" where
  "files0 = \<lparr>
     fopen = (\<lambda>p. if p = ''/t/a.cpp'' then Some [''int foo(); int main(){ return foo(); }'']
                   else if p = ''/t/b.cpp'' then Some [''int foo() { return 1; }'']
                   else None),
     readLine = (\<lambda>f max. case f of [] \<Rightarrow> ([], []) | l # ls \<Rightarrow> (l, ls))\<rparr>"

text \<open>The same file system after \<open>/t/b.cpp\<close> was deleted: opening it fails.\<close>

definition files1 :: "string list Files" where
  "files1 = files0\<lparr>fopen := (\<lambda>p. if p = ''/t/a.cpp''
                                 then Some [''int foo(); int main(){ return foo(); }'']
                                 else None)\<rparr>"

text \<open>An environment in which the database of \<open>/t\<close> is found and opens, and one in which
  it is found and does not open.\<close>

definition env0 :: "string list Env" where
  "env0 = \<lparr>
     findRtagsDb = (\<lambda>p. ''/t/.rtags.db''),
     create = (\<lambda>ty p. if p = ''/t/.rtags.db'' then Some db0 else None),
     filesystem = files0,
     RTAGS_DB_TYPE = None\<rparr>"

definition env1 :: "string list Env" where
  "env1 = env0\<lparr>create := (\<lambda>ty p. None)\<rparr>"

definition world0 :: World where
  "world0 = \<lparr>stdout = [], stderr = [], calls = []\<rparr>"

text \<open>
  What \<open>getopt_long\<close> gives for the words of the command lines
  \<open>rc -f /t/a.cpp:1:29 -h -r foo\<close>, \<open>rc -f /t/a.cpp:1:29 -o -r foo\<close> and \<open>rc -l\<close>.
\<close>

definition option_f :: getopt_result where
  "option_f = \<lparr>idx = CHR ''f'', optarg = Some ''/t/a.cpp:1:29'', argv_optind = Some ''-h''\<rparr>"

definition option_h :: getopt_result where
  "option_h = \<lparr>idx = CHR ''h'', optarg = None, argv_optind = Some ''-r''\<rparr>"

definition option_o :: getopt_result where
  "option_o = \<lparr>idx = CHR ''o'', optarg = None, argv_optind = Some ''-r''\<rparr>"

definition option_r :: getopt_result where
  "option_r = \<lparr>idx = CHR ''r'', optarg = Some ''foo'', argv_optind = None\<rparr>"

definition option_l :: getopt_result where
  "option_l = \<lparr>idx = CHR ''l'', optarg = None, argv_optind = None\<rparr>"

text \<open>What \<open>getopt_long\<close> gives for the words of the command line
  \<open>rc -N -S -f foo\<close>.\<close>

definition option_N :: getopt_result where
  "option_N = \<lparr>idx = CHR ''N'', optarg = None, argv_optind = Some ''-S''\<rparr>"

definition option_S :: getopt_result where
  "option_S = \<lparr>idx = CHR ''S'', optarg = None, argv_optind = Some ''-f''\<rparr>"

definition option_f_foo :: getopt_result where
  "option_f_foo = \<lparr>idx = CHR ''f'', optarg = Some ''foo'', argv_optind = None\<rparr>"

text \<open>A project with one running job, and the job's result as a batch for the store.\<close>

definition job0 :: "(unit, unit, 64 word set) JobData" where
  "job0 = \<lparr>pending = (), pendingType = (), crashCount = 0, job = Some {}\<rparr>"

definition project0 :: "(unit, unit, 64 word set) Project" where
  "project0 = \<lparr>mVisitedFiles = {3}, mJobs = [5 \<mapsto> job0]\<rparr>"

definition cursor0 :: CursorInfo where
  "cursor0 = \<lparr>kind = Declaration, symbolName = ''foo()'', usr = ''c:@F@foo#'', start = 4,
              end = 7, targets = {}, references = {}, enclosingClass = None,
              baseClasses = {}\<rparr>"

definition batch_a :: "(Location \<times> CursorInfo) list" where
  "batch_a = [(decl, cursor0), (call, cursor0\<lparr>kind := Reference, targets := {decl}\<rparr>)]"

definition batch_b :: "(Location \<times> CursorInfo) list" where
  "batch_b = [(defn, cursor0\<lparr>kind := Definition, targets := {decl}\<rparr>)]"

section \<open>What the printing functions write\<close>

lemma stdout_called [simp]: "stdout (called c w) = stdout w"
  by (simp add: called_def)

lemma stderr_called [simp]: "stderr (called c w) = stderr w"
  by (simp add: called_def)

lemma calls_called [simp]: "calls (called c w) = calls w @ [c]"
  by (simp add: called_def)

lemma stdout_printf [simp]: "stdout (printf s w) = stdout w @ s"
  by (simp add: printf_def)

lemma stderr_printf [simp]: "stderr (printf s w) = stderr w"
  by (simp add: printf_def)

lemma calls_printf [simp]: "calls (printf s w) = calls w"
  by (simp add: printf_def)

lemma stdout_fprintf_stderr [simp]: "stdout (fprintf_stderr s w) = stdout w"
  by (simp add: fprintf_stderr_def)

lemma stderr_fprintf_stderr [simp]: "stderr (fprintf_stderr s w) = stderr w @ s"
  by (simp add: fprintf_stderr_def)

lemma calls_fprintf_stderr [simp]: "calls (fprintf_stderr s w) = calls w"
  by (simp add: fprintf_stderr_def)

lemma stderr_printEach [simp]: "stderr (printEach fl i xs w) = stderr w"
  by (induction xs arbitrary: i w) simp_all

lemma calls_printEach [simp]: "calls (printEach fl i xs w) = calls w"
  by (induction xs arbitrary: i w) simp_all

lemma stdout_printEach:
  "stdout (printEach fl i xs w) = stdout w @ stdout (printEach fl i xs world0)"
proof (induction xs arbitrary: i w)
  case Nil
  show ?case by (simp add: world0_def)
next
  case (Cons x xs)
  show ?case
    by (subst (1 2) printEach.simps, subst (1 2) Cons.IH) (simp add: world0_def)
qed

lemma stdout_printEach_lines:
  "fl AND SeparateLocationsBySpace = 0 \<Longrightarrow>
   stdout (printEach fl i xs w) = stdout w @ concat (map (\<lambda>x. x @ ''\<newline>'') xs)"
  by (induction xs arbitrary: i w) simp_all

lemma stderr_printLocations [simp]: "stderr (printLocations fs fl t db w) = stderr w"
  by (simp add: printLocations_def Let_def)

lemma calls_printLocations [simp]: "calls (printLocations fs fl t db w) = calls w"
  by (simp add: printLocations_def Let_def)

lemma stdout_printLocations:
  "stdout (printLocations fs fl t db w) = stdout w @ stdout (printLocations fs fl t db world0)"
  unfolding printLocations_def Let_def
  by (subst (1 2) if_distrib [of stdout]) (simp add: stdout_printEach [of _ _ _ w])

lemma stdout_printLocations_cong:
  "stdout w = stdout w' \<Longrightarrow>
   stdout (printLocations fs fl t db w) = stdout (printLocations fs fl t db w')"
  by (simp add: stdout_printLocations [of _ _ _ _ w] stdout_printLocations [of _ _ _ _ w'])

lemma stdout_printLocations_calls [simp]:
  "stdout (printLocations fs fl t db (w\<lparr>calls := c\<rparr>)) = stdout (printLocations fs fl t db w)"
  by (rule stdout_printLocations_cong) simp

lemma stdout_printLocations_lines:
  assumes "fl AND SeparateLocationsBySpace = 0"
  shows "\<exists>ls. length ls = length t \<and>
           stdout (printLocations fs fl t db w) = stdout w @ concat (map (\<lambda>x. x @ ''\<newline>'') ls)"
proof -
  let ?out = "map (\<lambda>l. printLocationImpl fs l db fl) t"
  let ?ls = "if fl AND SortOutput \<noteq> 0 then sort ?out else ?out"
  have "length ?ls = length t" by simp
  moreover have "stdout (printLocations fs fl t db w) =
      stdout w @ concat (map (\<lambda>x. x @ ''\<newline>'') ?ls)"
    using assms by (simp add: printLocations_def Let_def stdout_printEach_lines)
  ultimately show ?thesis by blast
qed

lemma stderr_printLocation [simp]: "stderr (printLocation fs fl l db w) = stderr w"
  by (simp add: printLocation_def)

lemma calls_printLocation [simp]: "calls (printLocation fs fl l db w) = calls w"
  by (simp add: printLocation_def)

lemma stdout_printLocation:
  "stdout (printLocation fs fl l db w) =
     stdout w @ printLocationImpl fs l db (fl AND NOT SeparateLocationsBySpace) @ ''\<newline>''"
  by (simp add: printLocation_def)


section \<open>The loops of the query cases\<close>

lemma appendValid_eq:
  "appendValid q c ls (out, w) =
     (out @ filter (\<lambda>l. file l \<noteq> 0) (map q ls), w\<lparr>calls := calls w @ map c ls\<rparr>)"
  by (induction ls arbitrary: out w) (simp_all add: called_def Let_def)

lemma uniteResults_eq:
  "uniteResults q c ls (out, w) =
     (fold (\<lambda>l out. unite out (q l)) ls out, w\<lparr>calls := calls w @ map c ls\<rparr>)"
  by (induction ls arbitrary: out w) (simp_all add: called_def)

lemma set_qset_insert [simp]: "set (qset_insert x s) = insert x (set s)"
  by (auto simp: qset_insert_def)

lemma distinct_qset_insert [simp]: "distinct (qset_insert x s) = distinct s"
  by (auto simp: qset_insert_def)

lemma set_unite [simp]: "set (unite s other) = set s \<union> set other"
  unfolding unite_def by (induction other arbitrary: s) auto

lemma distinct_unite [simp]: "distinct (unite s other) = distinct s"
  unfolding unite_def by (induction other arbitrary: s) auto

lemma set_fold_unite:
  "set (fold (\<lambda>l out. unite out (q l)) ls out) = set out \<union> (\<Union>l\<in>set ls. set (q l))"
  by (induction ls arbitrary: out) auto

lemma distinct_fold_unite:
  "distinct (fold (\<lambda>l out. unite out (q l)) ls out) = distinct out"
  by (induction ls arbitrary: out) auto

lemma contains_iff: "contains p a \<longleftrightarrow> (\<exists>ps ss. p = ps @ a @ ss)"
proof (induction p)
  case Nil
  then show ?case by auto
next
  case (Cons c cs)
  show ?case
  proof
    assume "contains (c # cs) a"
    then consider "take (length a) (c # cs) = a" | "contains cs a" by auto
    then show "\<exists>ps ss. c # cs = ps @ a @ ss"
    proof cases
      case 1
      then have "c # cs = [] @ a @ drop (length a) (c # cs)"
        by (metis append_Nil append_take_drop_id)
      then show ?thesis by blast
    next
      case 2
      then obtain ps ss where "cs = ps @ a @ ss" using Cons.IH by blast
      then have "c # cs = (c # ps) @ a @ ss" by simp
      then show ?thesis by blast
    qed
  next
    assume "\<exists>ps ss. c # cs = ps @ a @ ss"
    then obtain ps ss where eq: "c # cs = ps @ a @ ss" by blast
    show "contains (c # cs) a"
    proof (cases ps)
      case Nil
      then have "take (length a) (c # cs) = a" using eq by simp
      then show ?thesis by simp
    next
      case (Cons q qs)
      then have "cs = qs @ a @ ss" using eq by simp
      then have "contains cs a" using Cons.IH by blast
      then show ?thesis by simp
    qed
  qed
qed

lemma stdout_printPaths:
  "stdout (printPaths e a root ps w) =
     stdout w @ concat (map (\<lambda>p. root @ p @ ''\<newline>'') (filter (\<lambda>p. e \<or> contains p a) ps))"
  by (induction ps arbitrary: w) (simp_all add: printf_def)


section \<open>The query cases in closed form\<close>

lemma runQuery_FollowSymbol:
  "runQuery fs FollowSymbol a fl db w =
    (if file (createLocation db a) \<noteq> 0 then
       (if file (followLocation db (createLocation db a)) \<noteq> 0
        then printLocation fs fl (followLocation db (createLocation db a)) db
               (w\<lparr>calls := calls w @ [Call_createLocation a,
                                        Call_followLocation (createLocation db a)]\<rparr>)
        else w\<lparr>calls := calls w @ [Call_createLocation a,
                                    Call_followLocation (createLocation db a)]\<rparr>)
     else printLocations fs fl
            (filter (\<lambda>l. file l \<noteq> 0) (map (followLocation db) (findSymbol db a))) db
            (w\<lparr>calls := calls w @ Call_createLocation a # Call_findSymbol a #
                                   map Call_followLocation (findSymbol db a)\<rparr>))"
  by (simp add: Let_def appendValid_eq called_def)

lemma runQuery_FindSuper:
  "runQuery fs FindSuper a fl db w =
    (if file (createLocation db a) \<noteq> 0 then
       (if file (findSuper db (createLocation db a)) \<noteq> 0
        then printLocation fs fl (findSuper db (createLocation db a)) db
               (w\<lparr>calls := calls w @ [Call_createLocation a,
                                        Call_findSuper (createLocation db a)]\<rparr>)
        else w\<lparr>calls := calls w @ [Call_createLocation a,
                                    Call_findSuper (createLocation db a)]\<rparr>)
     else printLocations fs fl
            (filter (\<lambda>l. file l \<noteq> 0) (map (findSuper db) (findSymbol db a))) db
            (w\<lparr>calls := calls w @ Call_createLocation a # Call_findSymbol a #
                                   map Call_findSuper (findSymbol db a)\<rparr>))"
  by (simp add: Let_def appendValid_eq called_def)

lemma runQuery_References:
  "runQuery fs References a fl db w =
    (if file (createLocation db a) \<noteq> 0 then
       printLocations fs fl (findReferences db (createLocation db a)) db
         (w\<lparr>calls := calls w @ [Call_createLocation a,
                                  Call_findReferences (createLocation db a)]\<rparr>)
     else printLocations fs fl
            (fold (\<lambda>l out. unite out (findReferences db l)) (findSymbol db a) []) db
            (w\<lparr>calls := calls w @ Call_createLocation a # Call_findSymbol a #
                                   map Call_findReferences (findSymbol db a)\<rparr>))"
  by (simp add: Let_def uniteResults_eq called_def)

lemma runQuery_FindSubs:
  "runQuery fs FindSubs a fl db w =
    (let out = (if file (createLocation db a) \<noteq> 0
                then unite [] (findSubs db (createLocation db a))
                else fold (\<lambda>l out. unite out (findSubs db l)) (findSymbol db a) []);
         w = w\<lparr>calls := calls w @ Call_createLocation a #
                  (if file (createLocation db a) \<noteq> 0
                   then [Call_findSubs (createLocation db a)]
                   else Call_findSymbol a # map Call_findSubs (findSymbol db a))\<rparr>
     in if out \<noteq> [] then printLocations fs fl out db w else w)"
  by (simp add: Let_def uniteResults_eq called_def)

lemma runQuery_AllReferences:
  "runQuery fs AllReferences a fl db w =
    (if file (createLocation db a) \<noteq> 0 then
       printLocations fs fl (allReferences db (createLocation db a)) db
         (w\<lparr>calls := calls w @ [Call_createLocation a,
                                  Call_allReferences (createLocation db a)]\<rparr>)
     else fprintf_stderr (''Invalid arg '' @ a)
            (w\<lparr>calls := calls w @ [Call_createLocation a]\<rparr>))"
  by (simp add: Let_def called_def)


lemma runQuery_FindSymbols:
  "runQuery fs FindSymbols a fl db w =
     printLocations fs fl (findSymbol db a) db (w\<lparr>calls := calls w @ [Call_findSymbol a]\<rparr>)"
  by (simp add: called_def)

declare runQuery.simps [simp del]

section \<open>The option loop\<close>

lemma or_flag_no_pending:
  assumes "fl AND PrecedingSpacePending = 0"
  shows "(fl OR NoContext) AND PrecedingSpacePending = 0"
    and "(fl OR SeparateLocationsBySpace) AND PrecedingSpacePending = 0"
    and "(fl OR SortOutput) AND PrecedingSpacePending = 0"
    and "(fl OR PathsRelativeToRoot) AND PrecedingSpacePending = 0"
    and "(fl AND NOT SeparateLocationsBySpace) AND PrecedingSpacePending = 0"
proof -
  have c: "NoContext AND PrecedingSpacePending = 0"
    "SeparateLocationsBySpace AND PrecedingSpacePending = 0"
    "SortOutput AND PrecedingSpacePending = 0"
    "PathsRelativeToRoot AND PrecedingSpacePending = 0"
    by (simp_all add: NoContext_def SeparateLocationsBySpace_def SortOutput_def
          PathsRelativeToRoot_def PrecedingSpacePending_def)
  show "(fl OR NoContext) AND PrecedingSpacePending = 0"
    and "(fl OR SeparateLocationsBySpace) AND PrecedingSpacePending = 0"
    and "(fl OR SortOutput) AND PrecedingSpacePending = 0"
    and "(fl OR PathsRelativeToRoot) AND PrecedingSpacePending = 0"
    using assms c by (simp_all only: word_ao_dist) simp_all
  have "(fl AND NOT SeparateLocationsBySpace) AND PrecedingSpacePending =
        (fl AND PrecedingSpacePending) AND NOT SeparateLocationsBySpace"
    by (simp only: ac_simps)
  then show "(fl AND NOT SeparateLocationsBySpace) AND PrecedingSpacePending = 0"
    using assms by simp
qed

lemma SET_MODE_flags:
  "SET_MODE m v w = Inr v' \<Longrightarrow> flags v' = flags v"
  by (auto simp: SET_MODE_def split: if_splits)

lemma options_flags_no_pending:
  assumes "options env argv0 gs v w = Inr (v', w')"
      and "flags v AND PrecedingSpacePending = 0"
  shows "flags v' AND PrecedingSpacePending = 0"
  using assms
proof (induction gs arbitrary: v)
  case Nil
  then show ?case by simp
next
  case (Cons g gs)
  have step: "\<And>u. flags u AND PrecedingSpacePending = 0 \<Longrightarrow>
                 options env argv0 gs u w = Inr (v', w') \<Longrightarrow>
                 flags v' AND PrecedingSpacePending = 0"
    using Cons.IH by blast
  have keep: "\<And>m u a. SET_MODE m v w = Inr u \<Longrightarrow>
                 options env argv0 gs (u\<lparr>arg := a\<rparr>) w = Inr (v', w') \<Longrightarrow>
                 flags v' AND PrecedingSpacePending = 0"
  proof -
    fix m u a
    assume s: "SET_MODE m v w = Inr u"
      and o: "options env argv0 gs (u\<lparr>arg := a\<rparr>) w = Inr (v', w')"
    have "flags (u\<lparr>arg := a\<rparr>) AND PrecedingSpacePending = 0"
      using SET_MODE_flags [OF s] Cons.prems(2) by simp
    then show "flags v' AND PrecedingSpacePending = 0" using o by (rule step)
  qed
  from Cons.prems show ?case
    by (auto simp: Let_def or_flag_no_pending split: if_splits sum.splits option.splits
          elim: step [rotated] keep [rotated])
qed

lemma options_mode_set:
  assumes "idx g \<in> set ''afPrlsub''" and "mode v \<noteq> Mode_None"
  shows "options env argv0 (g # gs) v w =
           Inl (1, fprintf_stderr ''Mode is already set\<newline>'' w)"
  using assms by (auto simp: SET_MODE_def)

lemma options_second_mode:
  assumes "\<forall>g\<in>set pre. idx g \<noteq> CHR ''?'' \<and> idx g \<noteq> CHR ''h''"
      and "mode v \<noteq> Mode_None \<or> (\<exists>g\<in>set pre. idx g \<in> set ''afPrlsub'')"
      and "idx g2 \<in> set ''afPrlsub''"
  shows "options env argv0 (pre @ g2 # rest) v w =
           Inl (1, fprintf_stderr ''Mode is already set\<newline>'' w)"
  using assms
proof (induction pre arbitrary: v)
  case Nil
  then show ?case by (simp add: options_mode_set del: options.simps)
next
  case (Cons g pre)
  have nq: "idx g \<noteq> CHR ''?''" "idx g \<noteq> CHR ''h''"
    and rest: "\<forall>g\<in>set pre. idx g \<noteq> CHR ''?'' \<and> idx g \<noteq> CHR ''h''"
    using Cons.prems(1) by simp_all
  note IH = Cons.IH [OF rest _ Cons.prems(3)]
  show ?case
  proof (cases "idx g \<in> set ''afPrlsub''")
    case True
    show ?thesis
    proof (cases "mode v = Mode_None")
      case False
      then show ?thesis using True by (simp add: options_mode_set del: options.simps)
    next
      case nomode: True
      have m: "\<And>m a. m \<noteq> Mode_None \<Longrightarrow>
                options env argv0 (pre @ g2 # rest) (v\<lparr>mode := m, arg := a\<rparr>) w =
                  Inl (1, fprintf_stderr ''Mode is already set\<newline>'' w)"
        by (rule IH) simp
      from True nomode show ?thesis
        by (auto simp: SET_MODE_def m)
    qed
  next
    case False
    then have later: "mode v \<noteq> Mode_None \<or> (\<exists>g\<in>set pre. idx g \<in> set ''afPrlsub'')"
      using Cons.prems(2) by auto
    have k: "\<And>v'. mode v' = mode v \<Longrightarrow>
                options env argv0 (pre @ g2 # rest) v' w =
                  Inl (1, fprintf_stderr ''Mode is already set\<newline>'' w)"
      by (rule IH) (use later in simp)
    from False nq show ?thesis
      by (auto simp: k Let_def split: option.splits)
  qed
qed


section \<open>The parser of the spec\<close>

lemma splitLast_Some: "splitLast s = Some (pre, post) \<Longrightarrow> s = pre @ '':'' @ post"
  by (induction s arbitrary: pre) (auto split: option.splits if_splits)

lemma splitLast_digits_wellFormed:
  assumes "splitLast s = Some (pre, post)" and "digits post"
  shows "wellFormed s"
proof -
  from assms(1) have "s = pre @ '':'' @ post" by (rule splitLast_Some)
  with assms(2) show ?thesis unfolding wellFormed_def by blast
qed

lemma parse_malformed:
  assumes "\<not> wellFormed s"
  shows "parseUserLocation intern s = invalidLocation"
proof (cases "splitLast s")
  case None
  then show ?thesis by (simp add: parseUserLocation_def)
next
  case (Some pp)
  obtain pre post where pp: "pp = (pre, post)" by (cases pp)
  have "\<not> digits post"
    using assms Some pp splitLast_digits_wellFormed by blast
  then show ?thesis by (simp add: parseUserLocation_def Some pp)
qed

lemma wellFormed_colon: "wellFormed s \<Longrightarrow> CHR '':'' \<in> set s"
  by (auto simp: wellFormed_def)


section \<open>The small index, evaluated\<close>

lemma db0_fields:
  "createLocation db0 = parseUserLocation intern0"
  "followLocation db0 = (\<lambda>l. if l = call then decl else if l = decl then defn
                            else if l = defn then decl else invalidLocation)"
  "findSymbol db0 = (\<lambda>n. if n = ''foo'' then [decl, defn] else [])"
  "findReferences db0 = (\<lambda>l. if l = decl \<or> l = defn then [call] else [])"
  "allReferences db0 = (\<lambda>l. if l = decl \<or> l = defn \<or> l = call then [decl, call, defn] else [])"
  "findSuper db0 = (\<lambda>l. invalidLocation)"
  "findSubs db0 = (\<lambda>l. [])"
  "listSymbols db0 = (\<lambda>n. filter (\<lambda>name. take (length n) name = n) [''main()'', ''foo()''])"
  "read_files db0 = [''a.cpp'', ''b.cpp'']"
  "read_sourceDir db0 = ''/t/''"
  "locationToString db0 = locationToString_spec pathOf0"
  "path db0 = (\<lambda>l. pathOf0 l NoFlag)"
  by (simp_all add: db0_def)

lemma env_fields:
  "findRtagsDb env0 = (\<lambda>p. ''/t/.rtags.db'')"
  "create env0 = (\<lambda>ty p. if p = ''/t/.rtags.db'' then Some db0 else None)"
  "filesystem env0 = files0" "RTAGS_DB_TYPE env0 = None"
  "findRtagsDb env1 = (\<lambda>p. ''/t/.rtags.db'')"
  "create env1 = (\<lambda>ty p. None)"
  "filesystem env1 = files0" "RTAGS_DB_TYPE env1 = None"
  by (simp_all add: env0_def env1_def)

lemma parse_examples:
  "parseUserLocation intern0 ''/t/a.cpp:1:29'' = call"
  "parseUserLocation intern0 ''/t/a.cpp:1:5'' = decl"
  "parseUserLocation intern0 ''foo'' = invalidLocation"
  by (simp_all add: parseUserLocation_def digits_def number_def intern0_def call_def decl_def)

lemma locations_distinct:
  "call \<noteq> decl" "decl \<noteq> call" "call \<noteq> defn" "defn \<noteq> call" "decl \<noteq> defn" "defn \<noteq> decl"
  "file decl = 1" "file call = 1" "file defn = 2" "file invalidLocation = 0"
  "line decl = 1" "line call = 1" "line defn = 1"
  "column decl = 5" "column call = 29" "column defn = 5"
  by (simp_all add: call_def decl_def defn_def invalidLocation_def)

lemma flag_values:
  "NoContext AND PathsRelativeToRoot = 0" "NoContext AND PrecedingSpacePending = 0"
  "NoContext AND NoContext = NoContext" "NoContext \<noteq> 0"
  "NoContext AND SeparateLocationsBySpace = 0" "NoContext AND SortOutput = 0"
  "(NoContext AND NOT SeparateLocationsBySpace) = NoContext"
  by (simp_all add: NoContext_def PathsRelativeToRoot_def PrecedingSpacePending_def
        SeparateLocationsBySpace_def SortOutput_def)

lemma impl_NoContext:
  "printLocationImpl files0 decl db0 NoContext = ''/t/a.cpp:1:5''"
  "printLocationImpl files0 call db0 NoContext = ''/t/a.cpp:1:29''"
  "printLocationImpl files0 defn db0 NoContext = ''/t/b.cpp:1:5''"
  by (simp_all add: printLocationImpl_def db0_fields flag_values locations_distinct
        locationToString_spec_def pathOf0_def decimal.simps)

lemma impl_context:
  "printLocationImpl files0 decl db0 0 =
     ''/t/a.cpp:1:5'' @ [CHR 0x09] @ ''int foo(); int main(){ return foo(); }''"
  by (simp add: printLocationImpl_def db0_fields locations_distinct
        locationToString_spec_def pathOf0_def decimal.simps files0_def)


section \<open>The symbol store keeps targets and references symmetric\<close>

lemma symmetric_empty: "symmetric Map.empty"
  by (simp add: symmetric_def)

lemma remove_fileId_Some:
  "remove_fileId f s l = Some c \<longleftrightarrow> file l \<noteq> f \<and> (\<exists>c0. s l = Some c0 \<and> c = purge f c0)"
  by (auto simp: remove_fileId_def)

lemma targets_purge [simp]: "targets (purge f c) = {l \<in> targets c. file l \<noteq> f}"
  by (simp add: purge_def)

lemma references_purge [simp]: "references (purge f c) = {l \<in> references c. file l \<noteq> f}"
  by (simp add: purge_def)

lemma symmetric_remove_fileId:
  assumes "symmetric s"
  shows "symmetric (remove_fileId f s)"
  unfolding symmetric_def
proof (intro allI impI)
  fix a b ca cb
  assume "remove_fileId f s a = Some ca \<and> remove_fileId f s b = Some cb"
  then obtain ca0 cb0 where a: "file a \<noteq> f" "s a = Some ca0" "ca = purge f ca0"
    and b: "file b \<noteq> f" "s b = Some cb0" "cb = purge f cb0"
    by (auto simp: remove_fileId_Some)
  from assms a(2) b(2) have "(b \<in> targets ca0) = (a \<in> references cb0)"
    by (simp add: symmetric_def)
  with a b show "(b \<in> targets ca) = (a \<in> references cb)" by simp
qed

lemma batch_file:
  assumes "map_of (filter (\<lambda>(l, ci). file l = f) batch) l = Some c"
  shows "file l = f"
proof -
  from assms have "(l, c) \<in> set (filter (\<lambda>(l, ci). file l = f) batch)"
    by (rule map_of_SomeD)
  then show ?thesis by simp
qed

lemma targets_relink [simp]:
  "targets (relink b l c) = targets c \<union> {a \<in> dom b. l \<in> references (the (b a))}"
  by (simp add: relink_def)

lemma references_relink [simp]:
  "references (relink b l c) = references c \<union> {a \<in> dom b. l \<in> targets (the (b a))}"
  by (simp add: relink_def)

lemma symmetric_insertBatch:
  assumes sym: "symmetric s"
  shows "symmetric (insertBatch f batch s)"
  unfolding symmetric_def
proof (intro allI impI)
  fix x y cx cy
  define b where "b = map_of (filter (\<lambda>(l, ci). file l = f) batch)"
  define s1 where "s1 = remove_fileId f s"
  have ins: "insertBatch f batch s = (\<lambda>l. map_option (relink b l) ((s1 ++ b) l))"
    by (simp add: insertBatch_def b_def s1_def Let_def)
  have bf: "\<And>l c. b l = Some c \<Longrightarrow> file l = f"
    unfolding b_def by (rule batch_file)
  have sym1: "symmetric s1"
    unfolding s1_def by (rule symmetric_remove_fileId [OF sym])
  have s1f: "\<And>l c. s1 l = Some c \<Longrightarrow> file l \<noteq> f"
    by (simp add: s1_def remove_fileId_Some)
  have s1t: "\<And>l c t. s1 l = Some c \<Longrightarrow> t \<in> targets c \<Longrightarrow> file t \<noteq> f"
    by (auto simp: s1_def remove_fileId_Some)
  have s1r: "\<And>l c t. s1 l = Some c \<Longrightarrow> t \<in> references c \<Longrightarrow> file t \<noteq> f"
    by (auto simp: s1_def remove_fileId_Some)
  assume "insertBatch f batch s x = Some cx \<and> insertBatch f batch s y = Some cy"
  then have "\<exists>z. (s1 ++ b) x = Some z \<and> relink b x z = cx"
    and "\<exists>z. (s1 ++ b) y = Some z \<and> relink b y z = cy"
    by (simp_all only: ins map_option_eq_Some)
  then obtain cx0 cy0 where x: "(s1 ++ b) x = Some cx0" "relink b x cx0 = cx"
    and y: "(s1 ++ b) y = Some cy0" "relink b y cy0 = cy"
    by (elim exE conjE)
  show "(y \<in> targets cx) = (x \<in> references cy)"
  proof (cases "b x")
    case None
    then have x1: "s1 x = Some cx0" using x(1) by (simp add: map_add_def)
    show ?thesis
    proof (cases "b y")
      case None
      then have y1: "s1 y = Some cy0" using y(1) by (simp add: map_add_def)
      have "(y \<in> targets cx0) = (x \<in> references cy0)"
        using sym1 x1 y1 by (simp add: symmetric_def)
      moreover have "x \<notin> dom b" "y \<notin> dom b" using None \<open>b x = None\<close> by auto
      ultimately show ?thesis using x(2) y(2) by auto
    next
      case (Some c)
      then have cy0: "cy0 = c" using y(1) by (simp add: map_add_def)
      have "file y = f" using Some by (rule bf)
      then have "y \<notin> targets cx0" using s1t [OF x1] by blast
      moreover have "x \<notin> dom b" using None by auto
      ultimately show ?thesis using x(2) y(2) Some cy0 by auto
    qed
  next
    case (Some c)
    then have cx0: "cx0 = c" using x(1) by (simp add: map_add_def)
    have fx: "file x = f" using Some by (rule bf)
    show ?thesis
    proof (cases "b y")
      case None
      then have y1: "s1 y = Some cy0" using y(1) by (simp add: map_add_def)
      have "x \<notin> references cy0" using s1r [OF y1] fx by blast
      moreover have "y \<notin> dom b" using None by auto
      ultimately show ?thesis using x(2) y(2) Some cx0 by auto
    next
      case (Some d)
      then have cy0: "cy0 = d" using y(1) by (simp add: map_add_def)
      show ?thesis using x(2) y(2) Some \<open>b x = Some c\<close> cx0 cy0 by auto
    qed
  qed
qed

lemma symmetric_sync: "symmetric s \<Longrightarrow> symmetric (sync pendingData s)"
proof (induction pendingData arbitrary: s)
  case Nil
  then show ?case by simp
next
  case (Cons p pendingData)
  obtain f batch where p: "p = (f, batch)" by (cases p)
  have "symmetric (insertBatch f batch s)"
    using Cons.prems by (rule symmetric_insertBatch)
  then have "symmetric (sync pendingData (insertBatch f batch s))"
    by (rule Cons.IH)
  then show ?case by (simp add: p)
qed

lemma stored_symmetric: "stored s \<Longrightarrow> symmetric s"
  by (induction rule: stored.induct)
     (auto intro: symmetric_empty symmetric_insertBatch symmetric_remove_fileId symmetric_sync)


text \<open>
  C1. Every store that the operations produce from the empty store is symmetric, so
  after any sync pass, any \<open>insertBatch\<close> and any \<open>remove\<close> on such a store the relation
  between targets and references is symmetric again: for all stored locations \<open>a\<close> and
  \<open>b\<close>, \<open>b\<close> is a target of \<open>a\<close> if and only if \<open>a\<close> is a reference of \<open>b\<close>.
\<close>

theorem symmetric_after_store_operations:
  assumes "stored s"
  shows "symmetric (sync pendingData s) \<and> symmetric (insertBatch f batch s) \<and>
         symmetric (remove_fileId f s)"
  using assms
  by (intro conjI stored_symmetric stored.sync stored.insertBatch stored.remove)


text \<open>The index of the two files: the batch of \<open>/t/a.cpp\<close> carries only the target of
  the call, and the store gives the declaration its references.\<close>

theorem symmetric_after_store_operations_witness:
  "stored (insertBatch 1 batch_a Map.empty) \<and>
   symmetric (sync [(2, batch_b)] (insertBatch 1 batch_a Map.empty)) \<and>
   symmetric (insertBatch 2 batch_b (insertBatch 1 batch_a Map.empty)) \<and>
   symmetric (remove_fileId 2 (insertBatch 1 batch_a Map.empty)) \<and>
   references (the (sync [(1, batch_a), (2, batch_b)] Map.empty decl)) = {call, defn} \<and>
   references (the (remove_fileId 2 (sync [(1, batch_a), (2, batch_b)] Map.empty) decl)) = {call}"
proof -
  have st: "stored (insertBatch 1 batch_a Map.empty)"
    by (rule stored.insertBatch [OF stored.empty])
  have "references (the (sync [(1, batch_a), (2, batch_b)] Map.empty decl)) = {call, defn}"
    by (auto simp: insertBatch_def batch_a_def batch_b_def decl_def call_def defn_def
          remove_fileId_def relink_def cursor0_def Let_def map_add_def purge_def)
  moreover
  have "references (the (remove_fileId 2 (sync [(1, batch_a), (2, batch_b)] Map.empty) decl))
          = {call}"
    by (auto simp: insertBatch_def batch_a_def batch_b_def decl_def call_def defn_def
          remove_fileId_def relink_def cursor0_def Let_def map_add_def purge_def)
  ultimately show ?thesis
    using st symmetric_after_store_operations
            [OF st, where pendingData = "[(2, batch_b)]" and f = 2 and batch = batch_b]
    by simp
qed


section \<open>Location argument or symbol name\<close>

text \<open>
  C2, as amended. Follow-symbol, find-references, find-super and find-subs run the
  query on the location the argument parses to when its file is not 0, and otherwise
  resolve the argument with \<open>findSymbol\<close> and run the query on every location found:
  follow-symbol and find-super print the results that are valid, references and
  find-subs the union of the results. All-references has no resolution by name: on a
  valid location it prints \<open>allReferences\<close> of it, on an invalid one it writes
  \<open>Invalid arg\<close> and the argument to the standard error and prints nothing.
  Find-symbols takes the argument as a name whatever it parses to.
\<close>

theorem location_or_name_resolution:
  "stdout (runQuery fs FollowSymbol a fl db w) =
     (if file (createLocation db a) \<noteq> 0 then
        (if file (followLocation db (createLocation db a)) \<noteq> 0
         then stdout (printLocation fs fl (followLocation db (createLocation db a)) db w)
         else stdout w)
      else stdout (printLocations fs fl
             (filter (\<lambda>l. file l \<noteq> 0) (map (followLocation db) (findSymbol db a))) db w)) \<and>
   stdout (runQuery fs FindSuper a fl db w) =
     (if file (createLocation db a) \<noteq> 0 then
        (if file (findSuper db (createLocation db a)) \<noteq> 0
         then stdout (printLocation fs fl (findSuper db (createLocation db a)) db w)
         else stdout w)
      else stdout (printLocations fs fl
             (filter (\<lambda>l. file l \<noteq> 0) (map (findSuper db) (findSymbol db a))) db w)) \<and>
   (\<exists>out. distinct out \<and>
      set out = (\<Union>l\<in>set (findSymbol db a). set (findReferences db l)) \<and>
      stdout (runQuery fs References a fl db w) =
        (if file (createLocation db a) \<noteq> 0
         then stdout (printLocations fs fl (findReferences db (createLocation db a)) db w)
         else stdout (printLocations fs fl out db w))) \<and>
   (\<exists>out. distinct out \<and>
      set out = (if file (createLocation db a) \<noteq> 0
                 then set (findSubs db (createLocation db a))
                 else (\<Union>l\<in>set (findSymbol db a). set (findSubs db l))) \<and>
      stdout (runQuery fs FindSubs a fl db w) =
        (if out \<noteq> [] then stdout (printLocations fs fl out db w) else stdout w)) \<and>
   stdout (runQuery fs AllReferences a fl db w) =
     (if file (createLocation db a) \<noteq> 0
      then stdout (printLocations fs fl (allReferences db (createLocation db a)) db w)
      else stdout w) \<and>
   stderr (runQuery fs AllReferences a fl db w) =
     (if file (createLocation db a) \<noteq> 0 then stderr w
      else stderr w @ ''Invalid arg '' @ a) \<and>
   stdout (runQuery fs FindSymbols a fl db w) =
     stdout (printLocations fs fl (findSymbol db a) db w)"
proof (intro conjI)
  show "stdout (runQuery fs FollowSymbol a fl db w) =
     (if file (createLocation db a) \<noteq> 0 then
        (if file (followLocation db (createLocation db a)) \<noteq> 0
         then stdout (printLocation fs fl (followLocation db (createLocation db a)) db w)
         else stdout w)
      else stdout (printLocations fs fl
             (filter (\<lambda>l. file l \<noteq> 0) (map (followLocation db) (findSymbol db a))) db w))"
    by (simp add: runQuery_FollowSymbol stdout_printLocation)
  show "stdout (runQuery fs FindSuper a fl db w) =
     (if file (createLocation db a) \<noteq> 0 then
        (if file (findSuper db (createLocation db a)) \<noteq> 0
         then stdout (printLocation fs fl (findSuper db (createLocation db a)) db w)
         else stdout w)
      else stdout (printLocations fs fl
             (filter (\<lambda>l. file l \<noteq> 0) (map (findSuper db) (findSymbol db a))) db w))"
    by (simp add: runQuery_FindSuper stdout_printLocation)
  let ?refs = "fold (\<lambda>l out. unite out (findReferences db l)) (findSymbol db a) []"
  have "distinct ?refs \<and>
      set ?refs = (\<Union>l\<in>set (findSymbol db a). set (findReferences db l)) \<and>
      stdout (runQuery fs References a fl db w) =
        (if file (createLocation db a) \<noteq> 0
         then stdout (printLocations fs fl (findReferences db (createLocation db a)) db w)
         else stdout (printLocations fs fl ?refs db w))"
    by (simp add: runQuery_References set_fold_unite distinct_fold_unite)
  then show "\<exists>out. distinct out \<and>
      set out = (\<Union>l\<in>set (findSymbol db a). set (findReferences db l)) \<and>
      stdout (runQuery fs References a fl db w) =
        (if file (createLocation db a) \<noteq> 0
         then stdout (printLocations fs fl (findReferences db (createLocation db a)) db w)
         else stdout (printLocations fs fl out db w))"
    by blast
  let ?subs = "if file (createLocation db a) \<noteq> 0
                then unite [] (findSubs db (createLocation db a))
                else fold (\<lambda>l out. unite out (findSubs db l)) (findSymbol db a) []"
  have "distinct ?subs \<and>
      set ?subs = (if file (createLocation db a) \<noteq> 0
                 then set (findSubs db (createLocation db a))
                 else (\<Union>l\<in>set (findSymbol db a). set (findSubs db l))) \<and>
      stdout (runQuery fs FindSubs a fl db w) =
        (if ?subs \<noteq> [] then stdout (printLocations fs fl ?subs db w) else stdout w)"
    by (simp add: runQuery_FindSubs set_fold_unite distinct_fold_unite Let_def)
  then show "\<exists>out. distinct out \<and>
      set out = (if file (createLocation db a) \<noteq> 0
                 then set (findSubs db (createLocation db a))
                 else (\<Union>l\<in>set (findSymbol db a). set (findSubs db l))) \<and>
      stdout (runQuery fs FindSubs a fl db w) =
        (if out \<noteq> [] then stdout (printLocations fs fl out db w) else stdout w)"
    by blast
  show "stdout (runQuery fs AllReferences a fl db w) =
     (if file (createLocation db a) \<noteq> 0
      then stdout (printLocations fs fl (allReferences db (createLocation db a)) db w)
      else stdout w)"
    by (simp add: runQuery_AllReferences)
  show "stderr (runQuery fs AllReferences a fl db w) =
     (if file (createLocation db a) \<noteq> 0 then stderr w
      else stderr w @ ''Invalid arg '' @ a)"
    by (simp add: runQuery_AllReferences)
  show "stdout (runQuery fs FindSymbols a fl db w) =
     stdout (printLocations fs fl (findSymbol db a) db w)"
    by (simp add: runQuery_FindSymbols)
qed

text \<open>
  The claim as stated fails for all-references: \<open>foo\<close> does not parse as a location,
  \<open>findSymbol\<close> resolves it to the declaration and the definition, whose
  all-references results print as three lines, and \<open>rc -N -a foo\<close> prints nothing and
  reports an invalid argument.
\<close>

theorem all_references_has_no_name_fallback:
  "file (createLocation db0 ''foo'') = 0 \<and>
   findSymbol db0 ''foo'' = [decl, defn] \<and>
   stdout (printLocations files0 NoContext
             (unite (unite [] (allReferences db0 decl)) (allReferences db0 defn)) db0 world0)
     = ''/t/a.cpp:1:5\<newline>/t/a.cpp:1:29\<newline>/t/b.cpp:1:5\<newline>'' \<and>
   stdout (runQuery files0 AllReferences ''foo'' NoContext db0 world0) = [] \<and>
   stderr (runQuery files0 AllReferences ''foo'' NoContext db0 world0) = ''Invalid arg foo''"
  by (simp add: runQuery_AllReferences db0_fields parse_examples locations_distinct
        printLocations_def flag_values impl_NoContext unite_def qset_insert_def world0_def)

theorem location_or_name_resolution_witness:
  "stdout (runQuery files0 FollowSymbol ''/t/a.cpp:1:29'' 0 db0 world0) =
     ''/t/a.cpp:1:5'' @ [CHR 0x09] @ ''int foo(); int main(){ return foo(); }\<newline>'' \<and>
   stdout (runQuery files0 References ''foo'' NoContext db0 world0) = ''/t/a.cpp:1:29\<newline>''"
  using location_or_name_resolution [of files0 "''/t/a.cpp:1:29''" 0 db0 world0]
        location_or_name_resolution [of files0 "''foo''" NoContext db0 world0]
  by (simp add: runQuery_References db0_fields parse_examples locations_distinct
        stdout_printLocation impl_context
        printLocations_def flag_values impl_NoContext unite_def qset_insert_def world0_def)


section \<open>Exit status\<close>

text \<open>Once a mode is selected, the loop over the databases ends in \<open>return 0\<close>,
  whatever the queries find and whether or not a database opens.\<close>

lemma databases_mode_selected_returns_0:
  "mode v \<noteq> Mode_None \<Longrightarrow> fst (databases env argv0 v ps w) = 0"
  by (induction ps arbitrary: w) (simp_all add: Let_def split: option.splits)

text \<open>
  C3, at the failing input. \<open>rc\<close> without any option, where the database is found and
  does not open: no mode is selected, nothing is written and the exit status is 0.
  Where the same database opens, the same command line ends with \<open>No mode selected\<close>
  and the exit status 1.
\<close>

theorem no_mode_and_unopened_database_exits_0:
  "main env1 ''rc'' [] =
     (0, \<lparr>stdout = [], stderr = [], calls = [Call_create ''/t/.rtags.db'']\<rparr>) \<and>
   main env0 ''rc'' [] =
     (1, \<lparr>stdout = [], stderr = usage ''rc'' @ ''No mode selected\<newline>'',
          calls = [Call_create ''/t/.rtags.db'']\<rparr>)"
  by (simp add: main_def env_fields Let_def called_def fprintf_stderr_def)


section \<open>The modes with a single result\<close>

text \<open>
  C4, as amended. When the argument parses as a location (its file is not 0),
  follow-symbol and find-super write, for one opened database, nothing when the result
  is the invalid location and exactly one printed location with its newline otherwise.
  When the argument is resolved by name they write one line for each resolved symbol
  whose result is valid (the display flag separate-by-space apart).
\<close>

theorem single_result_modes_print_at_most_one_line:
  "(file (createLocation db a) \<noteq> 0 \<longrightarrow>
      stdout (runQuery fs FollowSymbol a fl db w) =
        stdout w @
        (if file (followLocation db (createLocation db a)) \<noteq> 0
         then printLocationImpl fs (followLocation db (createLocation db a)) db
                (fl AND NOT SeparateLocationsBySpace) @ ''\<newline>''
         else []) \<and>
      stdout (runQuery fs FindSuper a fl db w) =
        stdout w @
        (if file (findSuper db (createLocation db a)) \<noteq> 0
         then printLocationImpl fs (findSuper db (createLocation db a)) db
                (fl AND NOT SeparateLocationsBySpace) @ ''\<newline>''
         else [])) \<and>
   (file (createLocation db a) = 0 \<and> fl AND SeparateLocationsBySpace = 0 \<longrightarrow>
      (\<exists>ls. length ls =
              length (filter (\<lambda>l. file l \<noteq> 0) (map (followLocation db) (findSymbol db a))) \<and>
            stdout (runQuery fs FollowSymbol a fl db w) =
              stdout w @ concat (map (\<lambda>x. x @ ''\<newline>'') ls)) \<and>
      (\<exists>ls. length ls =
              length (filter (\<lambda>l. file l \<noteq> 0) (map (findSuper db) (findSymbol db a))) \<and>
            stdout (runQuery fs FindSuper a fl db w) =
              stdout w @ concat (map (\<lambda>x. x @ ''\<newline>'') ls)))"
proof (intro conjI impI)
  assume "file (createLocation db a) \<noteq> 0"
  then show "stdout (runQuery fs FollowSymbol a fl db w) =
        stdout w @
        (if file (followLocation db (createLocation db a)) \<noteq> 0
         then printLocationImpl fs (followLocation db (createLocation db a)) db
                (fl AND NOT SeparateLocationsBySpace) @ ''\<newline>''
         else [])"
    and "stdout (runQuery fs FindSuper a fl db w) =
        stdout w @
        (if file (findSuper db (createLocation db a)) \<noteq> 0
         then printLocationImpl fs (findSuper db (createLocation db a)) db
                (fl AND NOT SeparateLocationsBySpace) @ ''\<newline>''
         else [])"
    by (simp_all add: runQuery_FollowSymbol runQuery_FindSuper stdout_printLocation)
next
  assume h: "file (createLocation db a) = 0 \<and> fl AND SeparateLocationsBySpace = 0"
  let ?t = "filter (\<lambda>l. file l \<noteq> 0) (map (followLocation db) (findSymbol db a))"
  from h obtain ls where "length ls = length ?t"
    and "stdout (printLocations fs fl ?t db w) = stdout w @ concat (map (\<lambda>x. x @ ''\<newline>'') ls)"
    using stdout_printLocations_lines [of fl ?t fs db w] by blast
  moreover have "stdout (runQuery fs FollowSymbol a fl db w) = stdout (printLocations fs fl ?t db w)"
    using h by (simp add: runQuery_FollowSymbol)
  ultimately show "\<exists>ls. length ls = length ?t \<and>
            stdout (runQuery fs FollowSymbol a fl db w) =
              stdout w @ concat (map (\<lambda>x. x @ ''\<newline>'') ls)"
    by auto
next
  assume h: "file (createLocation db a) = 0 \<and> fl AND SeparateLocationsBySpace = 0"
  let ?t = "filter (\<lambda>l. file l \<noteq> 0) (map (findSuper db) (findSymbol db a))"
  from h obtain ls where "length ls = length ?t"
    and "stdout (printLocations fs fl ?t db w) = stdout w @ concat (map (\<lambda>x. x @ ''\<newline>'') ls)"
    using stdout_printLocations_lines [of fl ?t fs db w] by blast
  moreover have "stdout (runQuery fs FindSuper a fl db w) = stdout (printLocations fs fl ?t db w)"
    using h by (simp add: runQuery_FindSuper)
  ultimately show "\<exists>ls. length ls = length ?t \<and>
            stdout (runQuery fs FindSuper a fl db w) =
              stdout w @ concat (map (\<lambda>x. x @ ''\<newline>'') ls)"
    by auto
qed


text \<open>
  The claim as stated fails where the argument is a name: \<open>rc -N -f foo\<close> follows the
  declaration and the definition of \<open>foo\<close> and prints two lines.
\<close>

theorem follow_symbol_by_name_prints_two_lines:
  "file (createLocation db0 ''foo'') = 0 \<and>
   stdout (runQuery files0 FollowSymbol ''foo'' NoContext db0 world0) =
     ''/t/b.cpp:1:5\<newline>/t/a.cpp:1:5\<newline>'' \<and>
   length (filter (\<lambda>c. c = CHR ''\<newline>'')
             (stdout (runQuery files0 FollowSymbol ''foo'' NoContext db0 world0))) = 2"
  by (simp add: runQuery_FollowSymbol db0_fields parse_examples locations_distinct
        printLocations_def flag_values impl_NoContext world0_def)

theorem single_result_modes_print_at_most_one_line_witness:
  "file (createLocation db0 ''/t/a.cpp:1:29'') \<noteq> 0 \<and>
   stdout (runQuery files0 FollowSymbol ''/t/a.cpp:1:29'' NoContext db0 world0) =
     ''/t/a.cpp:1:5\<newline>'' \<and>
   stdout (runQuery files0 FindSuper ''/t/a.cpp:1:29'' NoContext db0 world0) = [] \<and>
   file (createLocation db0 ''foo'') = 0 \<and> NoContext AND SeparateLocationsBySpace = 0 \<and>
   stdout (runQuery files0 FindSuper ''foo'' NoContext db0 world0) = []"
  using single_result_modes_print_at_most_one_line
          [where db = db0 and a = "''/t/a.cpp:1:29''" and fs = files0 and fl = NoContext
             and w = world0]
        single_result_modes_print_at_most_one_line
          [where db = db0 and a = "''foo''" and fs = files0 and fl = NoContext and w = world0]
  by (simp add: db0_fields parse_examples locations_distinct
        flag_values impl_NoContext world0_def)


section \<open>The invalid location\<close>

text \<open>
  C5. A string that is not of the shape \<open>path:line\<close> or \<open>path:line:column\<close> parses to
  the invalid location, whose file is 0. Every case of the switch that parses its
  argument tests the file of the result: when it is 0, all-references reports the
  argument on the standard error and calls nothing more, and follow-symbol, references,
  find-super and find-subs call \<open>findSymbol\<close> and then query the locations it gives and
  no other; only when it is not 0 is the parsed location itself passed to the query.
\<close>

theorem invalid_location_is_never_queried:
  "(\<not> wellFormed a \<longrightarrow> parseUserLocation intern a = invalidLocation) \<and>
   file invalidLocation = 0 \<and>
   (file (createLocation db a) = 0 \<longrightarrow>
      calls (runQuery fs AllReferences a fl db w) = calls w @ [Call_createLocation a] \<and>
      stderr (runQuery fs AllReferences a fl db w) = stderr w @ ''Invalid arg '' @ a \<and>
      calls (runQuery fs FollowSymbol a fl db w) =
        calls w @ Call_createLocation a # Call_findSymbol a #
                  map Call_followLocation (findSymbol db a) \<and>
      calls (runQuery fs References a fl db w) =
        calls w @ Call_createLocation a # Call_findSymbol a #
                  map Call_findReferences (findSymbol db a) \<and>
      calls (runQuery fs FindSuper a fl db w) =
        calls w @ Call_createLocation a # Call_findSymbol a #
                  map Call_findSuper (findSymbol db a) \<and>
      calls (runQuery fs FindSubs a fl db w) =
        calls w @ Call_createLocation a # Call_findSymbol a #
                  map Call_findSubs (findSymbol db a)) \<and>
   (file (createLocation db a) \<noteq> 0 \<longrightarrow>
      calls (runQuery fs AllReferences a fl db w) =
        calls w @ [Call_createLocation a, Call_allReferences (createLocation db a)] \<and>
      calls (runQuery fs FollowSymbol a fl db w) =
        calls w @ [Call_createLocation a, Call_followLocation (createLocation db a)] \<and>
      calls (runQuery fs References a fl db w) =
        calls w @ [Call_createLocation a, Call_findReferences (createLocation db a)] \<and>
      calls (runQuery fs FindSuper a fl db w) =
        calls w @ [Call_createLocation a, Call_findSuper (createLocation db a)] \<and>
      calls (runQuery fs FindSubs a fl db w) =
        calls w @ [Call_createLocation a, Call_findSubs (createLocation db a)])"
proof (intro conjI impI)
  assume "\<not> wellFormed a"
  then show "parseUserLocation intern a = invalidLocation"
    by (rule parse_malformed)
next
  show "file invalidLocation = 0" by (simp add: invalidLocation_def)
qed (simp_all add: runQuery_AllReferences runQuery_FollowSymbol runQuery_References
       runQuery_FindSuper runQuery_FindSubs Let_def)

theorem invalid_location_is_never_queried_witness:
  "\<not> wellFormed ''foo'' \<and> createLocation db0 ''foo'' = invalidLocation \<and>
   calls (runQuery files0 FollowSymbol ''foo'' NoContext db0 world0) =
     [Call_createLocation ''foo'', Call_findSymbol ''foo'',
      Call_followLocation decl, Call_followLocation defn] \<and>
   calls (runQuery files0 AllReferences ''foo'' NoContext db0 world0) =
     [Call_createLocation ''foo''] \<and>
   file (createLocation db0 ''/t/a.cpp:1:29'') \<noteq> 0 \<and>
   calls (runQuery files0 FollowSymbol ''/t/a.cpp:1:29'' NoContext db0 world0) =
     [Call_createLocation ''/t/a.cpp:1:29'', Call_followLocation call]"
proof -
  have nw: "\<not> wellFormed ''foo''"
    using wellFormed_colon [of "''foo''"] by auto
  show ?thesis
    using nw
      invalid_location_is_never_queried
        [where a = "''foo''" and intern = intern0 and db = db0 and fs = files0
           and fl = NoContext and w = world0]
      invalid_location_is_never_queried
        [where a = "''/t/a.cpp:1:29''" and intern = intern0 and db = db0 and fs = files0
           and fl = NoContext and w = world0]
    by (simp add: db0_fields parse_examples locations_distinct world0_def)
qed


section \<open>Sorted output\<close>

text \<open>
  C6, at the failing input. \<open>rc -l\<close>, without the sort-output flag, on an index whose
  symbol names are listed as \<open>main()\<close>, \<open>foo()\<close>: the names come out sorted.
\<close>

theorem list_symbols_sorted_without_sort_output:
  "listSymbols db0 [] = [''main()'', ''foo()''] \<and>
   stdout (runQuery files0 ListSymbols [] 0 db0 world0) = ''foo()\<newline>main()\<newline>'' \<and>
   main env0 ''rc'' [option_l] =
     (0, \<lparr>stdout = ''foo()\<newline>main()\<newline>'', stderr = [],
          calls = [Call_create ''/t/.rtags.db'', Call_listSymbols []]\<rparr>)"
  by (simp add: main_def env_fields Let_def called_def option_l_def SET_MODE_def optionalArg_def
        fromOptarg_def runQuery.simps db0_fields print_def SortOutput_def printf_def world0_def)


section \<open>The files query\<close>

text \<open>
  C7. The files query writes, in the order of the stored set, one line for each stored
  path that contains the argument as a substring, and for every stored path when the
  argument is empty; each line is the path after the root prefix (\<open>./\<close> with
  paths-relative-to-root, the database's source directory otherwise).
\<close>

theorem files_emits_matching_paths:
  "stdout (runQuery fs Files a mFlags db w) =
     stdout w @
     concat (map (\<lambda>p. (if mFlags AND PathsRelativeToRoot \<noteq> 0 then ''./'' else read_sourceDir db)
                        @ p @ ''\<newline>'')
              (filter (\<lambda>p. a = [] \<or> (\<exists>ps ss. p = ps @ a @ ss)) (read_files db)))"
  by (simp add: runQuery.simps stdout_printPaths contains_iff Let_def split: prod.splits)

theorem files_emits_matching_paths_witness:
  "stdout (runQuery files0 Files ''b.c'' 0 db0 world0) = ''/t/b.cpp\<newline>'' \<and>
   stdout (runQuery files0 Files [] PathsRelativeToRoot db0 world0) =
     ''./a.cpp\<newline>./b.cpp\<newline>''"
  using files_emits_matching_paths [of files0 "''b.c''" 0 db0 world0]
        files_emits_matching_paths [of files0 "[]" PathsRelativeToRoot db0 world0]
        contains_iff [of "''a.cpp''" "''b.c''"] contains_iff [of "''b.cpp''" "''b.c''"]
  by (simp add: db0_fields world0_def PathsRelativeToRoot_def)

section \<open>The form of a printed location\<close>

lemma clear_separate_keeps_flags:
  "(fl AND NOT SeparateLocationsBySpace) AND PathsRelativeToRoot = fl AND PathsRelativeToRoot"
  "(fl AND NOT SeparateLocationsBySpace) AND PrecedingSpacePending = fl AND PrecedingSpacePending"
  "(fl AND NOT SeparateLocationsBySpace) AND NoContext = fl AND NoContext"
proof -
  have k: "NOT SeparateLocationsBySpace AND PathsRelativeToRoot = PathsRelativeToRoot"
    "NOT SeparateLocationsBySpace AND PrecedingSpacePending = PrecedingSpacePending"
    "NOT SeparateLocationsBySpace AND NoContext = NoContext"
    by (simp_all add: SeparateLocationsBySpace_def PathsRelativeToRoot_def
          PrecedingSpacePending_def NoContext_def)
  have "(fl AND NOT SeparateLocationsBySpace) AND PathsRelativeToRoot =
          fl AND (NOT SeparateLocationsBySpace AND PathsRelativeToRoot)"
    by (simp only: and.assoc)
  then show "(fl AND NOT SeparateLocationsBySpace) AND PathsRelativeToRoot =
          fl AND PathsRelativeToRoot"
    by (simp only: k)
  have "(fl AND NOT SeparateLocationsBySpace) AND PrecedingSpacePending =
          fl AND (NOT SeparateLocationsBySpace AND PrecedingSpacePending)"
    by (simp only: and.assoc)
  then show "(fl AND NOT SeparateLocationsBySpace) AND PrecedingSpacePending =
          fl AND PrecedingSpacePending"
    by (simp only: k)
  have "(fl AND NOT SeparateLocationsBySpace) AND NoContext =
          fl AND (NOT SeparateLocationsBySpace AND NoContext)"
    by (simp only: and.assoc)
  then show "(fl AND NOT SeparateLocationsBySpace) AND NoContext = fl AND NoContext"
    by (simp only: k)
qed

lemma printLocationImpl_clear_separate:
  "printLocationImpl fs loc db (fl AND NOT SeparateLocationsBySpace) =
   printLocationImpl fs loc db fl"
  by (simp add: printLocationImpl_def clear_separate_keeps_flags)

lemma stdout_printEach_spaces:
  "fl AND SeparateLocationsBySpace \<noteq> 0 \<Longrightarrow>
   stdout (printEach fl i xs w) =
     stdout w @
     (if i = 0 then (case xs of [] \<Rightarrow> [] | x # r \<Rightarrow> x @ concat (map (\<lambda>y. '' '' @ y) r))
      else concat (map (\<lambda>y. '' '' @ y) xs))"
  by (induction xs arbitrary: i w) (simp_all split: list.splits)

lemma flag_values_separate:
  "(NoContext OR SeparateLocationsBySpace) AND PathsRelativeToRoot = 0"
  "(NoContext OR SeparateLocationsBySpace) AND PrecedingSpacePending = 0"
  "(NoContext OR SeparateLocationsBySpace) AND NoContext \<noteq> 0"
  "(NoContext OR SeparateLocationsBySpace) AND SeparateLocationsBySpace \<noteq> 0"
  "(NoContext OR SeparateLocationsBySpace) AND SortOutput = 0"
  "SeparateLocationsBySpace \<noteq> 0"
  by (simp_all add: NoContext_def PathsRelativeToRoot_def PrecedingSpacePending_def
        SeparateLocationsBySpace_def SortOutput_def)

lemma impl_NoContext_separate:
  "printLocationImpl files0 decl db0 (NoContext OR SeparateLocationsBySpace) = ''/t/a.cpp:1:5''"
  "printLocationImpl files0 call db0 (NoContext OR SeparateLocationsBySpace) = ''/t/a.cpp:1:29''"
  "printLocationImpl files0 defn db0 (NoContext OR SeparateLocationsBySpace) = ''/t/b.cpp:1:5''"
  by (simp_all add: printLocationImpl_def db0_fields flag_values flag_values_separate
        locations_distinct locationToString_spec_def pathOf0_def decimal.simps)

text \<open>
  C8, as amended. A printed location is the text that \<open>locationToString\<close> gives for it,
  which for the \<open>locationToString\<close> of the spec is \<open>path:line:column\<close>, followed by a
  tab and the text that \<open>readLine\<close> gives for the location's line of the source file;
  the tab and the text are left out when the no-context flag is set and when the file
  cannot be opened. \<open>printLocation\<close> writes it as a line of its own. \<open>printLocations\<close>
  writes each location of its list as a line of its own when separate-by-space is not
  set, and all of them on one line, a space between two, when it is set.
  The flags that \<open>main\<close> builds never hold \<open>PrecedingSpacePending\<close>, which would put a
  space in front (lemma \<open>options_flags_no_pending\<close>: none of the four display options
  sets it).
\<close>

theorem printed_location_form:
  assumes "fl AND PrecedingSpacePending = 0"
  shows
   "printLocationImpl fs loc db fl =
      locationToString db loc
        (if fl AND PathsRelativeToRoot \<noteq> 0 then RelativeToRoot else NoFlag) @
      (if fl AND NoContext \<noteq> 0 then []
       else case fopen fs (path db loc) of
              None \<Rightarrow> []
            | Some f \<Rightarrow>
                [CHR 0x09] @
                fst (readLine fs (((\<lambda>f. snd (readLine fs f (- 1))) ^^ unat (line loc - 1)) f)
                       1024)) \<and>
    locationToString (db\<lparr>locationToString := locationToString_spec pathOf\<rparr>) loc
        (if fl AND PathsRelativeToRoot \<noteq> 0 then RelativeToRoot else NoFlag) =
      pathOf loc (if fl AND PathsRelativeToRoot \<noteq> 0 then RelativeToRoot else NoFlag) @
      '':'' @ decimal (unat (line loc)) @ '':'' @ decimal (unat (column loc)) \<and>
    stdout (printLocation fs fl loc db w) =
      stdout w @ printLocationImpl fs loc db fl @ ''\<newline>'' \<and>
    (fl AND SeparateLocationsBySpace = 0 \<longrightarrow>
       stdout (printLocations fs fl t db w) =
         stdout w @
         concat (map (\<lambda>x. x @ ''\<newline>'')
                   (if fl AND SortOutput \<noteq> 0
                    then sort (map (\<lambda>l. printLocationImpl fs l db fl) t)
                    else map (\<lambda>l. printLocationImpl fs l db fl) t))) \<and>
    (fl AND SeparateLocationsBySpace \<noteq> 0 \<longrightarrow>
       stdout (printLocations fs fl t db w) =
         stdout w @
         (case (if fl AND SortOutput \<noteq> 0
                then sort (map (\<lambda>l. printLocationImpl fs l db fl) t)
                else map (\<lambda>l. printLocationImpl fs l db fl) t) of
            [] \<Rightarrow> []
          | x # r \<Rightarrow> x @ concat (map (\<lambda>y. '' '' @ y) r)) @
         ''\<newline>'')"
proof (intro conjI impI)
  show "printLocationImpl fs loc db fl =
      locationToString db loc
        (if fl AND PathsRelativeToRoot \<noteq> 0 then RelativeToRoot else NoFlag) @
      (if fl AND NoContext \<noteq> 0 then []
       else case fopen fs (path db loc) of
              None \<Rightarrow> []
            | Some f \<Rightarrow>
                [CHR 0x09] @
                fst (readLine fs (((\<lambda>f. snd (readLine fs f (- 1))) ^^ unat (line loc - 1)) f)
                       1024))"
    using assms by (simp add: printLocationImpl_def Let_def split: option.splits)
  show "locationToString (db\<lparr>locationToString := locationToString_spec pathOf\<rparr>) loc
        (if fl AND PathsRelativeToRoot \<noteq> 0 then RelativeToRoot else NoFlag) =
      pathOf loc (if fl AND PathsRelativeToRoot \<noteq> 0 then RelativeToRoot else NoFlag) @
      '':'' @ decimal (unat (line loc)) @ '':'' @ decimal (unat (column loc))"
    by (simp add: locationToString_spec_def)
  show "stdout (printLocation fs fl loc db w) =
      stdout w @ printLocationImpl fs loc db fl @ ''\<newline>''"
    by (simp add: stdout_printLocation printLocationImpl_clear_separate)
next
  assume "fl AND SeparateLocationsBySpace = 0"
  then show "stdout (printLocations fs fl t db w) =
         stdout w @
         concat (map (\<lambda>x. x @ ''\<newline>'')
                   (if fl AND SortOutput \<noteq> 0
                    then sort (map (\<lambda>l. printLocationImpl fs l db fl) t)
                    else map (\<lambda>l. printLocationImpl fs l db fl) t))"
    by (simp add: printLocations_def Let_def stdout_printEach_lines)
next
  assume "fl AND SeparateLocationsBySpace \<noteq> 0"
  then show "stdout (printLocations fs fl t db w) =
         stdout w @
         (case (if fl AND SortOutput \<noteq> 0
                then sort (map (\<lambda>l. printLocationImpl fs l db fl) t)
                else map (\<lambda>l. printLocationImpl fs l db fl) t) of
            [] \<Rightarrow> []
          | x # r \<Rightarrow> x @ concat (map (\<lambda>y. '' '' @ y) r)) @
         ''\<newline>''"
    by (simp add: printLocations_def Let_def stdout_printEach_spaces)
qed

text \<open>
  The claim as stated fails with separate-by-space: \<open>rc -N -S -f foo\<close> prints the two
  results on one line, so that line is not a single \<open>path:line:column\<close>.
\<close>

theorem separate_by_space_prints_two_locations_on_a_line:
  "stdout (runQuery files0 FollowSymbol ''foo'' (NoContext OR SeparateLocationsBySpace)
             db0 world0) = ''/t/b.cpp:1:5 /t/a.cpp:1:5\<newline>'' \<and>
   length (filter (\<lambda>c. c = CHR ''\<newline>'')
     (stdout (runQuery files0 FollowSymbol ''foo'' (NoContext OR SeparateLocationsBySpace)
                db0 world0))) = 1 \<and>
   main env0 ''rc'' [option_N, option_S, option_f_foo] =
     (0, \<lparr>stdout = ''/t/b.cpp:1:5 /t/a.cpp:1:5\<newline>'', stderr = [],
          calls = [Call_create ''/t/.rtags.db'', Call_createLocation ''foo'',
                   Call_findSymbol ''foo'', Call_followLocation decl,
                   Call_followLocation defn]\<rparr>)"
proof -
  have q: "runQuery files0 FollowSymbol ''foo'' (NoContext OR SeparateLocationsBySpace) db0
             (world0\<lparr>calls := [Call_create ''/t/.rtags.db'']\<rparr>) =
           \<lparr>stdout = ''/t/b.cpp:1:5 /t/a.cpp:1:5\<newline>'', stderr = [],
             calls = [Call_create ''/t/.rtags.db'', Call_createLocation ''foo'',
                   Call_findSymbol ''foo'', Call_followLocation decl,
                   Call_followLocation defn]\<rparr>"
    by (simp add: runQuery_FollowSymbol db0_fields parse_examples locations_distinct
          printLocations_def flag_values flag_values_separate impl_NoContext_separate
          world0_def printf_def)
  have s: "stdout (runQuery files0 FollowSymbol ''foo'' (NoContext OR SeparateLocationsBySpace)
             db0 world0) = ''/t/b.cpp:1:5 /t/a.cpp:1:5\<newline>''"
    by (simp add: runQuery_FollowSymbol db0_fields parse_examples locations_distinct
          printLocations_def flag_values flag_values_separate impl_NoContext_separate
          world0_def)
  have m: "main env0 ''rc'' [option_N, option_S, option_f_foo] =
     (0, runQuery files0 FollowSymbol ''foo'' (NoContext OR SeparateLocationsBySpace) db0
             (world0\<lparr>calls := [Call_create ''/t/.rtags.db'']\<rparr>))"
    by (simp add: main_def env_fields Let_def called_def option_N_def option_S_def
          option_f_foo_def SET_MODE_def fromOptarg_def world0_def)
  show ?thesis by (simp add: s m q)
qed

text \<open>A location with its context, without it by the flag, and without it because
  \<open>/t/b.cpp\<close> is gone; then a single location and a list in both layouts.\<close>

theorem printed_location_form_witness:
  "(0 :: 32 word) AND PrecedingSpacePending = 0 \<and>
   NoContext AND PrecedingSpacePending = 0 \<and>
   printLocationImpl files0 call db0 0 =
     ''/t/a.cpp:1:29'' @ [CHR 0x09] @ ''int foo(); int main(){ return foo(); }'' \<and>
   printLocationImpl files0 call db0 NoContext = ''/t/a.cpp:1:29'' \<and>
   fopen files1 (path db0 defn) = None \<and>
   printLocationImpl files1 defn db0 0 = ''/t/b.cpp:1:5'' \<and>
   stdout (printLocation files0 NoContext call db0 world0) = ''/t/a.cpp:1:29\<newline>'' \<and>
   stdout (printLocations files0 NoContext [decl, call] db0 world0) =
     ''/t/a.cpp:1:5\<newline>/t/a.cpp:1:29\<newline>'' \<and>
   stdout (printLocations files0 (NoContext OR SeparateLocationsBySpace) [decl, call] db0 world0) =
     ''/t/a.cpp:1:5 /t/a.cpp:1:29\<newline>''"
proof -
  have c: "printLocationImpl files0 call db0 0 =
     ''/t/a.cpp:1:29'' @ [CHR 0x09] @ ''int foo(); int main(){ return foo(); }''"
    by (simp add: printLocationImpl_def db0_fields locations_distinct
          locationToString_spec_def pathOf0_def decimal.simps files0_def)
  have n: "fopen files1 (path db0 defn) = None"
    by (simp add: files1_def db0_fields pathOf0_def locations_distinct)
  have "fopen files1 ''/t/b.cpp'' = None"
    by (simp add: files1_def)
  then have d: "printLocationImpl files1 defn db0 0 = ''/t/b.cpp:1:5''"
    by (simp add: printLocationImpl_def db0_fields locations_distinct
          locationToString_spec_def pathOf0_def decimal.simps)
  have l: "stdout (printLocations files0 NoContext [decl, call] db0 world0) =
     ''/t/a.cpp:1:5\<newline>/t/a.cpp:1:29\<newline>''"
    by (simp add: printLocations_def flag_values impl_NoContext world0_def)
  have s: "stdout (printLocations files0 (NoContext OR SeparateLocationsBySpace) [decl, call]
                     db0 world0) = ''/t/a.cpp:1:5 /t/a.cpp:1:29\<newline>''"
    by (simp add: printLocations_def flag_values flag_values_separate impl_NoContext_separate
          world0_def)
  have p: "stdout (printLocation files0 NoContext call db0 world0) = ''/t/a.cpp:1:29\<newline>''"
    by (simp add: stdout_printLocation flag_values impl_NoContext world0_def)
  show ?thesis
    using printed_location_form [of 0 files0 call db0 pathOf0 world0 "[]"]
          printed_location_form [of NoContext files0 call db0 pathOf0 world0 "[decl, call]"]
          printed_location_form [of 0 files1 defn db0 pathOf0 world0 "[]"]
          printed_location_form [of "NoContext OR SeparateLocationsBySpace" files0 call db0
                                    pathOf0 world0 "[decl, call]"]
    by (simp only: c n d l s p impl_NoContext flag_values) simp
qed


section \<open>Visiting a file once\<close>

text \<open>
  C9. \<open>visitFile(fileId, id)\<close> on a file that is already visited returns false and
  leaves the project as it is, the visited files and the jobs included. On a file not
  visited yet, called for a job that exists (the two assertions hold), it returns true
  and adds \<open>fileId\<close> to the visited files, and any further call with the same \<open>fileId\<close>
  returns false and changes nothing. Where an assertion fails, the call does not return.
\<close>

theorem visitFile_true_iff_first_visit:
  "(fileId \<in> mVisitedFiles p \<longrightarrow> visitFile ins fileId id' p = Inr (False, p)) \<and>
   (fileId \<notin> mVisitedFiles p \<and> mJobs p (ucast id') = Some data \<and> job data = Some j \<longrightarrow>
      (\<exists>p'. visitFile ins fileId id' p = Inr (True, p') \<and>
            mVisitedFiles p' = insert fileId (mVisitedFiles p) \<and>
            (\<forall>id2. visitFile ins fileId id2 p' = Inr (False, p')))) \<and>
   (fileId \<notin> mVisitedFiles p \<and> (mJobs p (ucast id') = None \<or>
        (\<exists>d. mJobs p (ucast id') = Some d \<and> job d = None)) \<longrightarrow>
      visitFile ins fileId id' p = Inl AssertionFailed)"
  by (auto simp: visitFile_def Let_def)

theorem visitFile_true_iff_first_visit_witness:
  "visitFile insert 7 5 project0 =
     Inr (True, \<lparr>mVisitedFiles = {7, 3}, mJobs = [5 \<mapsto> job0\<lparr>job := Some {5}\<rparr>]\<rparr>) \<and>
   visitFile insert 7 5 \<lparr>mVisitedFiles = {7, 3}, mJobs = [5 \<mapsto> job0\<lparr>job := Some {5}\<rparr>]\<rparr> =
     Inr (False, \<lparr>mVisitedFiles = {7, 3}, mJobs = [5 \<mapsto> job0\<lparr>job := Some {5}\<rparr>]\<rparr>) \<and>
   visitFile insert 3 5 project0 = Inr (False, project0) \<and>
   visitFile insert 7 6 project0 = Inl AssertionFailed"
  using visitFile_true_iff_first_visit [of 7 project0 insert 5 job0 "{}"]
        visitFile_true_iff_first_visit [of 3 project0 insert 5 job0 "{}"]
        visitFile_true_iff_first_visit [of 7 project0 insert 6 job0 "{}"]
  by (simp add: project0_def job0_def visitFile_def)


section \<open>A second query mode\<close>

text \<open>
  C10, as amended. When the option loop reaches a second query-mode option, that is,
  when neither an invalid option nor the help option comes before it, \<open>main\<close> writes
  \<open>Mode is already set\<close> to the standard error and returns 1; it has then written
  nothing else, created no database and called no query.
\<close>

theorem second_mode_option_exits_1:
  assumes "\<forall>g\<in>set pre. idx g \<noteq> CHR ''?'' \<and> idx g \<noteq> CHR ''h''"
      and "\<exists>g\<in>set pre. idx g \<in> set ''afPrlsub''"
      and "idx g2 \<in> set ''afPrlsub''"
  shows "main env argv0 (pre @ g2 # rest) =
           (1, \<lparr>stdout = [], stderr = ''Mode is already set\<newline>'', calls = []\<rparr>)"
  using assms
  by (simp add: main_def options_second_mode fprintf_stderr_def del: options.simps)


text \<open>
  The claim as stated fails where the help option stands between the two mode options:
  \<open>rc -f /t/a.cpp:1:29 -h -r foo\<close> prints the usage text and returns 0.
\<close>

theorem help_before_second_mode_option_exits_0:
  "idx option_f \<in> set ''afPrlsub'' \<and> idx option_r \<in> set ''afPrlsub'' \<and>
   main env0 ''rc'' [option_f, option_h, option_r] =
     (0, \<lparr>stdout = usage ''rc'', stderr = [], calls = []\<rparr>)"
  by (simp add: main_def option_f_def option_h_def option_r_def SET_MODE_def printf_def)


theorem second_mode_option_exits_1_witness:
  "main env0 ''rc'' [option_f, option_o, option_r] =
     (1, \<lparr>stdout = [], stderr = ''Mode is already set\<newline>'', calls = []\<rparr>)"
  using second_mode_option_exits_1 [of "[option_f, option_o]" option_r env0 "''rc''" "[]"]
  by (simp add: option_f_def option_o_def option_r_def del: options.simps)

end
